theory Spec2Isabelle
  imports Complex_Main
begin

section \<open>Python primitives used by the three generators\<close>

text \<open>
  The three tools (\<^verbatim>\<open>generate_chart.py\<close>, \<^verbatim>\<open>generate_big_numbers.py\<close>,
  \<^verbatim>\<open>generate_timeline.py\<close>) are Python scripts. Exceptions are values of \<open>error\<close>;
  a function that can raise returns \<open>error + 'a\<close> with \<open>Inl\<close> for the exception.
  Python floats are read as reals (NaN, infinities and rounding are outside the model).
  Strings are byte lists: ASCII text as it stands, other text as its UTF-8 bytes.
\<close>

datatype reason =
    NotEnoughValues          \<comment> \<open>ValueError: not enough values to unpack\<close>
  | TooManyValues            \<comment> \<open>ValueError: too many values to unpack\<close>
  | CouldNotConvert string   \<comment> \<open>ValueError: could not convert string to float\<close>
  | EmptySequence            \<comment> \<open>ValueError: max() of an empty sequence\<close>
  | NegativeWedge            \<comment> \<open>ValueError of \<^verbatim>\<open>ax.pie\<close>: wedge sizes must be non negative\<close>
  | LabelLength              \<comment> \<open>ValueError of \<^verbatim>\<open>ax.pie\<close>: labels must be as many as the sizes\<close>
  | ExplodeLength            \<comment> \<open>ValueError of \<^verbatim>\<open>ax.pie\<close>: explode must be as long as the sizes\<close>
  | BadGrid                  \<comment> \<open>ValueError of \<^verbatim>\<open>plt.subplots\<close>: a grid needs at least one row and column\<close>

datatype error =
    ValueError reason
  | IndexError
  | KeyError
  | ZeroDivisionError
  | StopIteration            \<comment> \<open>\<^verbatim>\<open>next\<close> on the cycle of an empty colour list\<close>
  | NotANumber               \<comment> \<open>no exception: a float result that is NaN, which no real stands for\<close>

text \<open>\<^verbatim>\<open>s.split(sep)\<close> for a one-character separator: always at least one piece.\<close>

fun py_split :: "char \<Rightarrow> string \<Rightarrow> string list" where
  "py_split sep [] = [[]]"
| "py_split sep (c # cs) =
     (if c = sep then [] # py_split sep cs
      else (case py_split sep cs of [] \<Rightarrow> [[c]] | w # ws \<Rightarrow> (c # w) # ws))"

text \<open>
  \<^verbatim>\<open>s.strip()\<close> trims the characters for which \<^verbatim>\<open>str.isspace\<close> holds at both ends. In the
  byte reading these are ten ASCII characters, the two-byte sequences of U+0085 and U+00A0, and
  the three-byte sequences of U+1680, U+2000 to U+200A, U+2028, U+2029, U+202F, U+205F and
  U+3000.
\<close>

definition py_isspace :: "char \<Rightarrow> bool" where
  "py_isspace c \<longleftrightarrow> c \<in> set [CHR 0x09, CHR 0x0A, CHR 0x0B, CHR 0x0C, CHR 0x0D,
                               CHR 0x1C, CHR 0x1D, CHR 0x1E, CHR 0x1F, CHR 0x20]"

definition is_space2 :: "char \<Rightarrow> char \<Rightarrow> bool" where
  "is_space2 b1 b2 \<longleftrightarrow> b1 = CHR 0xC2 \<and> (b2 = CHR 0x85 \<or> b2 = CHR 0xA0)"

definition is_space3 :: "char \<Rightarrow> char \<Rightarrow> char \<Rightarrow> bool" where
  "is_space3 b1 b2 b3 \<longleftrightarrow>
     b1 = CHR 0xE1 \<and> b2 = CHR 0x9A \<and> b3 = CHR 0x80
     \<or> b1 = CHR 0xE2 \<and> b2 = CHR 0x80
         \<and> (128 \<le> (of_char b3 :: nat) \<and> (of_char b3 :: nat) \<le> 138
              \<or> b3 = CHR 0xA8 \<or> b3 = CHR 0xA9 \<or> b3 = CHR 0xAF)
     \<or> b1 = CHR 0xE2 \<and> b2 = CHR 0x81 \<and> b3 = CHR 0x9F
     \<or> b1 = CHR 0xE3 \<and> b2 = CHR 0x80 \<and> b3 = CHR 0x80"

fun lstrip :: "string \<Rightarrow> string" where
  "lstrip [] = []"
| "lstrip [b1] = (if py_isspace b1 then [] else [b1])"
| "lstrip [b1, b2] =
     (if py_isspace b1 then lstrip [b2]
      else if is_space2 b1 b2 then []
      else [b1, b2])"
| "lstrip (b1 # b2 # b3 # bs) =
     (if py_isspace b1 then lstrip (b2 # b3 # bs)
      else if is_space2 b1 b2 then lstrip (b3 # bs)
      else if is_space3 b1 b2 b3 then lstrip bs
      else b1 # b2 # b3 # bs)"

text \<open>The same from the right end, on the reversed string: the last byte comes first.\<close>

fun rstrip_rev :: "string \<Rightarrow> string" where
  "rstrip_rev [] = []"
| "rstrip_rev [b1] = (if py_isspace b1 then [] else [b1])"
| "rstrip_rev [b2, b1] =
     (if py_isspace b2 then rstrip_rev [b1]
      else if is_space2 b1 b2 then []
      else [b2, b1])"
| "rstrip_rev (b3 # b2 # b1 # bs) =
     (if py_isspace b3 then rstrip_rev (b2 # b1 # bs)
      else if is_space2 b2 b3 then rstrip_rev (b1 # bs)
      else if is_space3 b1 b2 b3 then rstrip_rev bs
      else b3 # b2 # b1 # bs)"

definition strip :: "string \<Rightarrow> string" where
  "strip s = rev (rstrip_rev (rev (lstrip s)))"

text \<open>\<^verbatim>\<open>xs[i]\<close> for a non-negative index.\<close>

definition py_nth :: "'a list \<Rightarrow> nat \<Rightarrow> error + 'a" where
  "py_nth xs i = (if i < length xs then Inr (xs ! i) else Inl IndexError)"

text \<open>\<^verbatim>\<open>str(n)\<close> for a non-negative integer, as used by the f-string \<^verbatim>\<open>f'...{i+1}'\<close>.\<close>

definition digit_char :: "nat \<Rightarrow> char" where
  "digit_char d = ''0123456789'' ! d"

fun str_nat :: "nat \<Rightarrow> string" where
  "str_nat n = (if n < 10 then [digit_char n] else str_nat (n div 10) @ [digit_char (n mod 10)])"

declare str_nat.simps [simp del]

text \<open>
  \<^verbatim>\<open>float(s)\<close> is a builtin; the parsers below take it as the parameter \<open>fl\<close>
  (\<open>None\<close> where \<^verbatim>\<open>float\<close> raises ValueError), so every general statement holds for the
  builtin whatever it accepts. For concrete inputs, \<open>int_literal_float\<close> is its restriction to
  optionally signed decimal integer literals, on which \<^verbatim>\<open>float\<close> returns that integer
  (exactly, for literals below \<open>2 ^ 53\<close>).
\<close>

definition is_digit :: "char \<Rightarrow> bool" where
  "is_digit c \<longleftrightarrow> 48 \<le> (of_char c :: nat) \<and> (of_char c :: nat) \<le> 57"

definition digits_value :: "string \<Rightarrow> nat" where
  "digits_value ds = foldl (\<lambda>acc c. 10 * acc + (of_char c - 48)) 0 ds"

definition int_literal_float :: "string \<Rightarrow> real option" where
  "int_literal_float s =
     (case strip s of
        [] \<Rightarrow> None
      | c # cs \<Rightarrow>
          if c = CHR ''+'' \<and> cs \<noteq> [] \<and> list_all is_digit cs then Some (real (digits_value cs))
          else if c = CHR ''-'' \<and> cs \<noteq> [] \<and> list_all is_digit cs then Some (- real (digits_value cs))
          else if list_all is_digit (c # cs) then Some (real (digits_value (c # cs)))
          else None)"

section \<open>DataParser: \<^verbatim>\<open>parse_data\<close> of generate\_chart.py\<close>

text \<open>
  The loop of format 1: \<^verbatim>\<open>cat, val = item.split(':')\<close> unpacks exactly two pieces and raises
  ValueError otherwise; then the label is stripped and the value converted.
\<close>

fun parse_pairs ::
  "(string \<Rightarrow> real option) \<Rightarrow> string list \<Rightarrow> string list \<Rightarrow> real list
     \<Rightarrow> error + (string list \<times> real list)" where
  "parse_pairs fl [] categories vals = Inr (categories, vals)"
| "parse_pairs fl (item # items) categories vals =
     (case py_split CHR '':'' item of
        [cat, val] \<Rightarrow>
          (case fl (strip val) of
             None \<Rightarrow> Inl (ValueError (CouldNotConvert (strip val)))
           | Some v \<Rightarrow> parse_pairs fl items (categories @ [strip cat]) (vals @ [v]))
      | [] \<Rightarrow> Inl (ValueError NotEnoughValues)
      | [_] \<Rightarrow> Inl (ValueError NotEnoughValues)
      | _ \<Rightarrow> Inl (ValueError TooManyValues))"

text \<open>The comprehension of format 2: \<^verbatim>\<open>[float(x.strip()) for x in data_str.split(',')]\<close>.\<close>

fun floats_of :: "(string \<Rightarrow> real option) \<Rightarrow> string list \<Rightarrow> error + real list" where
  "floats_of fl [] = Inr []"
| "floats_of fl (x # xs) =
     (case fl (strip x) of
        None \<Rightarrow> Inl (ValueError (CouldNotConvert (strip x)))
      | Some v \<Rightarrow> (case floats_of fl xs of Inl e \<Rightarrow> Inl e | Inr vs \<Rightarrow> Inr (v # vs)))"

text \<open>
  The synthesized label is an f-string: a fixed prefix followed by \<^verbatim>\<open>{i+1}\<close>. The prefix
  in the source is the two CJK characters U+9879 U+76EE, here as their UTF-8 bytes.
\<close>

definition label_prefix :: string where
  "label_prefix = [CHR 0xE9, CHR 0xA1, CHR 0xB9, CHR 0xE7, CHR 0x9B, CHR 0xAE]"

definition auto_label :: "nat \<Rightarrow> string" where
  "auto_label i = label_prefix @ str_nat (i + 1)"

definition parse_data :: "(string \<Rightarrow> real option) \<Rightarrow> string \<Rightarrow> error + (string list \<times> real list)" where
  "parse_data fl data_str =
     (if CHR '':'' \<in> set data_str
      then parse_pairs fl (py_split CHR '','' data_str) [] []
      else (case floats_of fl (py_split CHR '','' data_str) of
              Inl e \<Rightarrow> Inl e
            | Inr vals \<Rightarrow> Inr (map auto_label [0..<length vals], vals)))"

section \<open>DataParser: \<^verbatim>\<open>parse_metrics_data\<close> and \<^verbatim>\<open>parse_timeline_data\<close>\<close>

record metric =
  number :: string
  title :: string
  description :: string

text \<open>
  The loop of \<^verbatim>\<open>parse_metrics_data\<close>: a record is kept only under the guard
  \<^verbatim>\<open>if len(parts) >= 3\<close>; the reads \<^verbatim>\<open>parts[0]\<close>, \<^verbatim>\<open>parts[1]\<close>, \<^verbatim>\<open>parts[2]\<close> are
  modelled as fallible indexing.
\<close>

fun parse_metric_items :: "string list \<Rightarrow> metric list \<Rightarrow> error + metric list" where
  "parse_metric_items [] metrics = Inr metrics"
| "parse_metric_items (item # items) metrics =
     (let parts = py_split CHR '':'' item in
      if 3 \<le> length parts then
        (case py_nth parts 0 of Inl e \<Rightarrow> Inl e | Inr p0 \<Rightarrow>
        (case py_nth parts 1 of Inl e \<Rightarrow> Inl e | Inr p1 \<Rightarrow>
        (case py_nth parts 2 of Inl e \<Rightarrow> Inl e | Inr p2 \<Rightarrow>
           parse_metric_items items
             (metrics @ [\<lparr>number = strip p0, title = strip p1, description = strip p2\<rparr>]))))
      else parse_metric_items items metrics)"

definition parse_metrics_data :: "string \<Rightarrow> error + metric list" where
  "parse_metrics_data data_str = parse_metric_items (py_split CHR '','' data_str) []"

record timeline_item =
  time :: string
  stage_title :: string
  stage_description :: string

text \<open>
  \<^verbatim>\<open>parse_timeline_data\<close> is the same loop under the same guard; its dict keys are time, title
  and description (the fields \<open>time\<close>, \<open>stage_title\<close>, \<open>stage_description\<close>).
\<close>

fun parse_timeline_items :: "string list \<Rightarrow> timeline_item list \<Rightarrow> error + timeline_item list" where
  "parse_timeline_items [] timeline = Inr timeline"
| "parse_timeline_items (item # items) timeline =
     (let parts = py_split CHR '':'' item in
      if 3 \<le> length parts then
        (case py_nth parts 0 of Inl e \<Rightarrow> Inl e | Inr p0 \<Rightarrow>
        (case py_nth parts 1 of Inl e \<Rightarrow> Inl e | Inr p1 \<Rightarrow>
        (case py_nth parts 2 of Inl e \<Rightarrow> Inl e | Inr p2 \<Rightarrow>
           parse_timeline_items items
             (timeline @ [\<lparr>time = strip p0, stage_title = strip p1, stage_description = strip p2\<rparr>]))))
      else parse_timeline_items items timeline)"

definition parse_timeline_data :: "string \<Rightarrow> error + timeline_item list" where
  "parse_timeline_data data_str = parse_timeline_items (py_split CHR '','' data_str) []"

section \<open>ColorScheme: the three \<^verbatim>\<open>COLOR_SCHEMES\<close> registries\<close>

text \<open>
  Each script carries its own \<^verbatim>\<open>COLOR_SCHEMES\<close> dict. A scheme of generate\_chart.py and
  generate\_big\_numbers.py has the keys name, gradient, primary, accent, text, text\_light,
  background (the chart tool adds accent2 and accent3 to two schemes: an absent key is \<open>None\<close>);
  a scheme of generate\_timeline.py has name, colors, text, text\_light. The key \<^verbatim>\<open>text\<close> is the
  field \<open>text_color\<close>. The display names are CJK text, written as UTF-8 bytes.
\<close>

record scheme =
  name :: string
  gradient :: "string list"
  primary :: string
  accent :: string
  accent2 :: "string option"
  accent3 :: "string option"
  text_color :: string
  text_light :: string
  background :: string

record timeline_scheme =
  tl_name :: string
  colors :: "string list"
  tl_text_color :: string
  tl_text_light :: string

definition name_blue :: string where
  "name_blue = [CHR 0xE7, CHR 0xA7, CHR 0x91, CHR 0xE6, CHR 0x8A, CHR 0x80, CHR 0xE8, CHR 0x93, CHR 0x9D]"

definition name_orange :: string where
  "name_orange = [CHR 0xE5, CHR 0x95, CHR 0x86, CHR 0xE5, CHR 0x8A, CHR 0xA1, CHR 0xE6, CHR 0xA9, CHR 0x99]"

definition name_green :: string where
  "name_green = [CHR 0xE4, CHR 0xB8, CHR 0x93, CHR 0xE4, CHR 0xB8, CHR 0x9A, CHR 0xE7, CHR 0xBB, CHR 0xBF]"

definition name_gold_blue :: string where
  "name_gold_blue = [CHR 0xE9, CHR 0xAB, CHR 0x98, CHR 0xE7, CHR 0xAB, CHR 0xAF, CHR 0xE9, CHR 0x87, CHR 0x91, CHR 0xE8, CHR 0x93, CHR 0x9D]"

definition name_multilayer :: string where
  "name_multilayer = [CHR 0xE5, CHR 0xA4, CHR 0x9A, CHR 0xE5, CHR 0xB1, CHR 0x82, CHR 0xE6, CHR 0xAC, CHR 0xA1, CHR 0xE4, CHR 0xB8, CHR 0x93, CHR 0xE4, CHR 0xB8, CHR 0x9A]"

definition chart_COLOR_SCHEMES :: "(string \<times> scheme) list" where
  "chart_COLOR_SCHEMES = [
    (''blue'', \<lparr>name = name_blue, gradient = [''#4A90E2'', ''#5B7FCE'', ''#6D6FBB'', ''#7E5FA8''],
       primary = ''#4A90E2'', accent = ''#FF6B6B'', accent2 = None, accent3 = None,
       text_color = ''#2C3E50'', text_light = ''#7F8C8D'', background = ''#ECF0F1''\<rparr>),
    (''orange'', \<lparr>name = name_orange, gradient = [''#FF9500'', ''#FFA733'', ''#FFB966'', ''#FFCB99''],
       primary = ''#FF9500'', accent = ''#4ECDC4'', accent2 = None, accent3 = None,
       text_color = ''#34495E'', text_light = ''#95A5A6'', background = ''#F7F9FA''\<rparr>),
    (''green'', \<lparr>name = name_green, gradient = [''#00D084'', ''#33D99A'', ''#66E2B0'', ''#99EBC6''],
       primary = ''#00D084'', accent = ''#FDCB6E'', accent2 = None, accent3 = None,
       text_color = ''#2D3436'', text_light = ''#636E72'', background = ''#DFE6E9''\<rparr>),
    (''gold_blue'', \<lparr>name = name_gold_blue, gradient = [''#1E3A5F'', ''#2C5282'', ''#3A6FA5''],
       primary = ''#2C5282'', accent = ''#D4AF37'', accent2 = Some ''#F4E4C1'', accent3 = None,
       text_color = ''#2D3436'', text_light = ''#636E72'', background = ''#F5F6FA''\<rparr>),
    (''multilayer'', \<lparr>name = name_multilayer, gradient = [''#2C5282'', ''#3A6FA5'', ''#5A8FC4''],
       primary = ''#2C5282'', accent = ''#FF9500'', accent2 = Some ''#D4AF37'', accent3 = Some ''#8B4513'',
       text_color = ''#2D3436'', text_light = ''#636E72'', background = ''#F5F6FA''\<rparr>)]"

definition big_numbers_COLOR_SCHEMES :: "(string \<times> scheme) list" where
  "big_numbers_COLOR_SCHEMES = [
    (''blue'', \<lparr>name = name_blue, gradient = [''#4A90E2'', ''#5B7FCE'', ''#6D6FBB'', ''#7E5FA8''],
       primary = ''#4A90E2'', accent = ''#FF6B6B'', accent2 = None, accent3 = None,
       text_color = ''#2C3E50'', text_light = ''#7F8C8D'', background = ''#ECF0F1''\<rparr>),
    (''gold_blue'', \<lparr>name = name_gold_blue, gradient = [''#2C5282'', ''#D4AF37'', ''#3A6FA5'', ''#F4E4C1''],
       primary = ''#2C5282'', accent = ''#D4AF37'', accent2 = None, accent3 = None,
       text_color = ''#2D3436'', text_light = ''#636E72'', background = ''#F5F6FA''\<rparr>),
    (''multilayer'', \<lparr>name = name_multilayer, gradient = [''#2C5282'', ''#FF9500'', ''#D4AF37'', ''#8B4513''],
       primary = ''#2C5282'', accent = ''#FF9500'', accent2 = None, accent3 = None,
       text_color = ''#2D3436'', text_light = ''#636E72'', background = ''#F5F6FA''\<rparr>),
    (''orange'', \<lparr>name = name_orange, gradient = [''#FF9500'', ''#FFA733'', ''#FFB966'', ''#FFCB99''],
       primary = ''#FF9500'', accent = ''#4ECDC4'', accent2 = None, accent3 = None,
       text_color = ''#34495E'', text_light = ''#95A5A6'', background = ''#F7F9FA''\<rparr>),
    (''green'', \<lparr>name = name_green, gradient = [''#00D084'', ''#33D99A'', ''#66E2B0'', ''#99EBC6''],
       primary = ''#00D084'', accent = ''#FDCB6E'', accent2 = None, accent3 = None,
       text_color = ''#2D3436'', text_light = ''#636E72'', background = ''#DFE6E9''\<rparr>)]"

definition timeline_COLOR_SCHEMES :: "(string \<times> timeline_scheme) list" where
  "timeline_COLOR_SCHEMES = [
    (''blue'', \<lparr>tl_name = name_blue, colors = [''#4A90E2'', ''#5B7FCE'', ''#6D6FBB'', ''#7E5FA8''],
       tl_text_color = ''#2C3E50'', tl_text_light = ''#7F8C8D''\<rparr>),
    (''gold_blue'', \<lparr>tl_name = name_gold_blue, colors = [''#2C5282'', ''#D4AF37'', ''#3A6FA5'', ''#8B4513''],
       tl_text_color = ''#2D3436'', tl_text_light = ''#636E72''\<rparr>),
    (''multilayer'', \<lparr>tl_name = name_multilayer, colors = [''#2C5282'', ''#FF9500'', ''#D4AF37'', ''#5A8FC4''],
       tl_text_color = ''#2D3436'', tl_text_light = ''#636E72''\<rparr>),
    (''orange'', \<lparr>tl_name = name_orange, colors = [''#FF9500'', ''#FFA733'', ''#FFB966'', ''#FFCB99''],
       tl_text_color = ''#34495E'', tl_text_light = ''#95A5A6''\<rparr>),
    (''green'', \<lparr>tl_name = name_green, colors = [''#00D084'', ''#33D99A'', ''#66E2B0'', ''#99EBC6''],
       tl_text_color = ''#2D3436'', tl_text_light = ''#636E72''\<rparr>)]"

text \<open>\<^verbatim>\<open>COLOR_SCHEMES[args.color]\<close>: a dict lookup, KeyError for a key that is not there.\<close>

definition scheme_of :: "(string \<times> 'a) list \<Rightarrow> string \<Rightarrow> error + 'a" where
  "scheme_of registry key = (case map_of registry key of None \<Rightarrow> Inl KeyError | Some sch \<Rightarrow> Inr sch)"

section \<open>LayoutEngine of generate\_chart.py\<close>

text \<open>
  Each generator issues drawing calls on a matplotlib axes. The model records the geometry
  handed to those calls (bars, connector lines, wedge arguments, polygon points) and stops there:
  what matplotlib computes from the arguments is not part of the scripts. Text labels, titles
  and the saved file are left out.
\<close>

subsection \<open>Pie and donut\<close>

text \<open>
  \<^verbatim>\<open>max(values)\<close> raises ValueError on an empty list. The comprehension
  \<^verbatim>\<open>[0.05 if v == max(values) else 0 for v in values]\<close> evaluates it once per element.
\<close>

definition py_max :: "real list \<Rightarrow> error + real" where
  "py_max xs = (case xs of [] \<Rightarrow> Inl (ValueError EmptySequence) | x # r \<Rightarrow> Inr (fold max r x))"

fun explode_from :: "real list \<Rightarrow> real list \<Rightarrow> error + real list" where
  "explode_from vals [] = Inr []"
| "explode_from vals (v # vs) =
     (case py_max vals of
        Inl e \<Rightarrow> Inl e
      | Inr m \<Rightarrow>
          (case explode_from vals vs of
             Inl e \<Rightarrow> Inl e
           | Inr es \<Rightarrow> Inr ((if v = m then 0.05 else 0) # es)))"

text \<open>
  \<^verbatim>\<open>ax.pie(x, labels, colors, startangle, explode)\<close> of matplotlib, as its documentation and
  code have it. The sizes must be non-negative and labels and explode as long as the sizes
  (ValueError otherwise). The sizes are normalised to fractions \<open>x / sum(x)\<close>; when the sum is
  0 the fractions of a non-empty \<open>x\<close> are NaN. Starting at \<open>theta1 = startangle / 360\<close> turns,
  each fraction in the order given yields a wedge from \<open>theta1\<close> to
  \<open>theta2 = theta1 + fr\<close> for the fraction \<open>fr\<close> (counter-clockwise, the default), drawn between the angles
  \<open>360 * min theta1 theta2\<close> and \<open>360 * max theta1 theta2\<close> in degrees, and the next wedge
  starts at \<open>theta2\<close>. Wedge colours cycle through \<open>colors\<close>.
\<close>

record wedge =
  wedge_theta1 :: real
  wedge_theta2 :: real
  wedge_label :: string
  wedge_explode :: real
  wedge_color :: string

fun pie_wedges :: "real \<Rightarrow> (real \<times> string \<times> real) list \<Rightarrow> string list \<Rightarrow> nat \<Rightarrow> wedge list" where
  "pie_wedges theta1 [] cols k = []"
| "pie_wedges theta1 ((fr, label, expl) # rest) cols k =
     (let theta2 = theta1 + fr in
      \<lparr>wedge_theta1 = 360 * min theta1 theta2, wedge_theta2 = 360 * max theta1 theta2,
       wedge_label = label, wedge_explode = expl,
       wedge_color = cols ! (k mod length cols)\<rparr>
      # pie_wedges theta2 rest cols (k + 1))"

definition ax_pie ::
  "real list \<Rightarrow> string list \<Rightarrow> string list \<Rightarrow> real \<Rightarrow> real list \<Rightarrow> error + wedge list" where
  "ax_pie x labels cols start expl =
     (if list_ex (\<lambda>v. v < 0) x then Inl (ValueError NegativeWedge)
      else if length x \<noteq> length labels then Inl (ValueError LabelLength)
      else if length x \<noteq> length expl then Inl (ValueError ExplodeLength)
      else if x \<noteq> [] \<and> cols = [] then Inl StopIteration
      else if x \<noteq> [] \<and> sum_list x = 0 then Inl NotANumber
      else Inr (pie_wedges (start / 360)
                  (zip (map (\<lambda>v. v / sum_list x) x) (zip labels expl)) cols 0))"

text \<open>
  The generators compute \<^verbatim>\<open>colors = scheme['gradient'][:len(categories)]\<close> and the explode list,
  then call \<^verbatim>\<open>ax.pie(values, labels=categories, colors=colors, startangle=90,
  explode=explode, ...)\<close>. The layout keeps the arguments handed over, the wedges that result,
  the radius of the white centre circle, and for the donut the total written in the centre.
\<close>

record pie_layout =
  pie_values :: "real list"
  pie_labels :: "string list"
  pie_colors :: "string list"
  startangle :: real
  explode :: "real list"
  wedges :: "wedge list"
  centre_radius :: real
  centre_total :: "real option"

definition generate_pie_chart :: "string list \<Rightarrow> real list \<Rightarrow> scheme \<Rightarrow> error + pie_layout" where
  "generate_pie_chart categories vals sch =
     (let cols = take (length categories) (gradient sch) in
      case explode_from vals vals of
        Inl e \<Rightarrow> Inl e
      | Inr ex \<Rightarrow>
          (case ax_pie vals categories cols 90 ex of
             Inl e \<Rightarrow> Inl e
           | Inr ws \<Rightarrow>
               Inr \<lparr>pie_values = vals, pie_labels = categories, pie_colors = cols,
                    startangle = 90, explode = ex, wedges = ws,
                    centre_radius = 0.70, centre_total = None\<rparr>))"

definition generate_donut_chart :: "string list \<Rightarrow> real list \<Rightarrow> scheme \<Rightarrow> error + pie_layout" where
  "generate_donut_chart categories vals sch =
     (let cols = take (length categories) (gradient sch) in
      case explode_from vals vals of
        Inl e \<Rightarrow> Inl e
      | Inr ex \<Rightarrow>
          (case ax_pie vals categories cols 90 ex of
             Inl e \<Rightarrow> Inl e
           | Inr ws \<Rightarrow>
               Inr \<lparr>pie_values = vals, pie_labels = categories, pie_colors = cols,
                    startangle = 90, explode = ex, wedges = ws,
                    centre_radius = 0.65, centre_total = Some (sum_list vals)\<rparr>))"

subsection \<open>Radar\<close>

text \<open>
  \<^verbatim>\<open>np.linspace(start, stop, num, endpoint)\<close>: \<open>num\<close> samples \<open>start + i * step\<close> with
  \<open>step = (stop - start) / div\<close>, where \<open>div\<close> is \<open>num - 1\<close> with the endpoint and \<open>num\<close>
  without; a single sample with the endpoint is \<open>start\<close>.
\<close>

definition linspace :: "real \<Rightarrow> real \<Rightarrow> nat \<Rightarrow> bool \<Rightarrow> real list" where
  "linspace start stop num endpoint =
     (let dv = (if endpoint then num - 1 else num) in
      if dv = 0 then replicate num start
      else map (\<lambda>i. start + real i * ((stop - start) / real dv)) [0..<num])"

text \<open>
  \<^verbatim>\<open>angles = np.linspace(0, 2 * np.pi, len(categories), endpoint=False).tolist()\<close>, then
  \<^verbatim>\<open>values_plot = values + [values[0]]\<close> (IndexError on no values) and
  \<^verbatim>\<open>angles += angles[:1]\<close>. Point \<open>k\<close> of the polygon is \<open>(angles ! k, values_plot ! k)\<close>;
  the tick positions are \<^verbatim>\<open>angles[:-1]\<close>.
\<close>

record radar_layout =
  angles :: "real list"
  values_plot :: "real list"
  xticks :: "real list"
  line_color :: string

definition generate_radar_chart :: "string list \<Rightarrow> real list \<Rightarrow> scheme \<Rightarrow> error + radar_layout" where
  "generate_radar_chart categories vals sch =
     (let angles0 = linspace 0 (2 * pi) (length categories) False in
      case py_nth vals 0 of
        Inl e \<Rightarrow> Inl e
      | Inr v0 \<Rightarrow>
          (let angles1 = angles0 @ take 1 angles0 in
           Inr \<lparr>angles = angles1, values_plot = vals @ [v0],
                xticks = butlast angles1, line_color = primary sch\<rparr>))"

subsection \<open>Waterfall\<close>

record bar =
  bar_x :: nat
  bar_height :: real
  bar_bottom :: real
  bar_color :: string

record connector =
  line_x_from :: real
  line_x_to :: real
  line_y :: real

record waterfall_layout =
  bars :: "bar list"
  connectors :: "connector list"

text \<open>A loop body that may raise, run over a list: the first exception ends the loop.\<close>

fun sequence_res :: "(error + 'a) list \<Rightarrow> error + 'a list" where
  "sequence_res [] = Inr []"
| "sequence_res (r # rs) =
     (case r of
        Inl e \<Rightarrow> Inl e
      | Inr x \<Rightarrow> (case sequence_res rs of Inl e \<Rightarrow> Inl e | Inr xs \<Rightarrow> Inr (x # xs)))"

text \<open>
  \<^verbatim>\<open>cumulative = [0]\<close>, then \<^verbatim>\<open>for v in values[:-1]: cumulative.append(cumulative[-1] + v)\<close>.
\<close>

definition cumulative_of :: "real list \<Rightarrow> real list" where
  "cumulative_of vals = foldl (\<lambda>cum v. cum @ [last cum + v]) [0] (butlast vals)"

text \<open>
  The colour loop: first and last bar in the primary colour, a non-negative step in the accent
  colour, a negative one in \<^verbatim>\<open>#FF6B6B\<close>.
\<close>

definition waterfall_colors :: "real list \<Rightarrow> scheme \<Rightarrow> string list" where
  "waterfall_colors vals sch =
     map (\<lambda>(i, v). if i = 0 \<or> int i = int (length vals) - 1 then primary sch
                    else if v \<ge> 0 then accent sch
                    else ''#FF6B6B'')
         (enumerate 0 vals)"

text \<open>
  The bar loop runs over \<^verbatim>\<open>enumerate(zip(categories, values, cumulative))\<close>: the bar at
  index \<^verbatim>\<open>len(categories) - 1\<close> is drawn with \<^verbatim>\<open>bottom=0\<close>, every other with
  \<^verbatim>\<open>bottom=cum\<close>. The connector loop runs over \<^verbatim>\<open>range(len(categories) - 2)\<close> and draws a
  line from \<open>i + 0.3\<close> to \<open>i + 0.7\<close> at height \<^verbatim>\<open>cumulative[i+1]\<close>.
\<close>

definition generate_waterfall_chart ::
  "string list \<Rightarrow> real list \<Rightarrow> scheme \<Rightarrow> error + waterfall_layout" where
  "generate_waterfall_chart categories vals sch =
     (let cumulative = cumulative_of vals;
          cols = waterfall_colors vals sch in
      case sequence_res
             (map (\<lambda>(i, cat, val, cum).
                     case py_nth cols i of
                       Inl e \<Rightarrow> Inl e
                     | Inr c \<Rightarrow>
                         Inr \<lparr>bar_x = i, bar_height = val,
                              bar_bottom = (if int i = int (length categories) - 1 then 0 else cum),
                              bar_color = c\<rparr>)
                  (enumerate 0 (zip categories (zip vals cumulative)))) of
        Inl e \<Rightarrow> Inl e
      | Inr bs \<Rightarrow>
          (case sequence_res
                  (map (\<lambda>i. case py_nth cumulative (i + 1) of
                               Inl e \<Rightarrow> Inl e
                             | Inr y \<Rightarrow>
                                 Inr \<lparr>line_x_from = real i + 0.3, line_x_to = real i + 0.7,
                                      line_y = y\<rparr>)
                       [0..<nat (int (length categories) - 2)]) of
             Inl e \<Rightarrow> Inl e
           | Inr cs \<Rightarrow> Inr \<lparr>bars = bs, connectors = cs\<rparr>))"

section \<open>LayoutEngine of generate\_big\_numbers.py\<close>

text \<open>
  \<^verbatim>\<open>plt.subplots(rows, cols)\<close> allocates \<open>rows * cols\<close> axes (and raises ValueError for a
  grid without columns); the script flattens them into one list. The first \<open>n\<close> axes, zipped
  with the metrics, become cards filled with \<^verbatim>\<open>colors[i % 2]\<close> where
  \<^verbatim>\<open>colors = [scheme['primary'], scheme['accent']]\<close>; the loop over \<^verbatim>\<open>axes[n:]\<close> only turns
  the axis off.
\<close>

datatype cell = Card string metric | Hidden

record grid_layout =
  rows :: nat
  cols :: nat
  figsize :: "nat \<times> nat"
  cells :: "cell list"

definition grid_shape :: "nat \<Rightarrow> nat \<times> nat \<times> (nat \<times> nat)" where
  "grid_shape n =
     (if n \<le> 2 then (n, 1, (7 * n, 6))
      else if n \<le> 4 then (2, 2, (14, 12))
      else (3, (n + 2) div 3, (18, 6 * ((n + 2) div 3))))"

definition generate_big_number_cards :: "metric list \<Rightarrow> scheme \<Rightarrow> error + grid_layout" where
  "generate_big_number_cards metrics sch =
     (let n = length metrics in
      case grid_shape n of (cols_n, rows_n, fs) \<Rightarrow>
        if rows_n = 0 \<or> cols_n = 0 then Inl (ValueError BadGrid)
        else
          (let axes = [0..<rows_n * cols_n];
               fill = [primary sch, accent sch] in
           Inr \<lparr>rows = rows_n, cols = cols_n, figsize = fs,
                cells = map (\<lambda>(i, ax, m). Card (fill ! (i mod 2)) m)
                            (enumerate 0 (zip (take n axes) metrics))
                        @ map (\<lambda>ax. Hidden) (drop n axes)\<rparr>))"

section \<open>LayoutEngine of generate\_timeline.py\<close>

record node =
  node_x :: real
  node_color :: string
  node_time :: string
  node_title :: string

record card =
  card_left :: real
  card_width :: real
  card_color :: string
  card_text :: string

record timeline_layout =
  x_positions :: "real list"
  nodes :: "node list"
  cards :: "card list"

text \<open>
  \<^verbatim>\<open>x_positions = np.linspace(1.5, 8.5, n)\<close>, \<^verbatim>\<open>colors = scheme['colors'][:n]\<close>; both drawing
  loops run over \<^verbatim>\<open>zip(x_positions, timeline, colors)\<close>, which stops with its shortest
  argument. Between the loops, \<^verbatim>\<open>card_width = (8.5 - 1.5) / n - 0.2\<close> divides by \<open>n\<close>
  (ZeroDivisionError for an empty timeline).
\<close>

definition generate_horizontal_timeline ::
  "timeline_item list \<Rightarrow> timeline_scheme \<Rightarrow> error + timeline_layout" where
  "generate_horizontal_timeline timeline sch =
     (let n = length timeline;
          xs = linspace 1.5 8.5 n True;
          cs = take n (colors sch);
          ns = map (\<lambda>(x, item, color).
                      \<lparr>node_x = x, node_color = color, node_time = time item,
                       node_title = stage_title item\<rparr>)
                   (zip xs (zip timeline cs)) in
      if n = 0 then Inl ZeroDivisionError
      else
        (let width = (8.5 - 1.5) / real n - 0.2 in
         Inr \<lparr>x_positions = xs, nodes = ns,
              cards = map (\<lambda>(x, item, color).
                             \<lparr>card_left = x - width / 2, card_width = width,
                              card_color = color, card_text = stage_description item\<rparr>)
                          (zip xs (zip timeline cs))\<rparr>))"

section \<open>Properties of the parsers\<close>

subsection \<open>Evaluation rules and loop lemmas\<close>

lemmas eval_parse = parse_data_def parse_metrics_data_def int_literal_float_def strip_def py_isspace_def
  is_space2_def is_space3_def
  is_digit_def digits_value_def py_nth_def auto_label_def

lemma py_split_nonempty: "py_split sep s \<noteq> []"
  by (induction s) (auto split: list.splits)

lemma parse_pairs_Inr_two:
  "parse_pairs fl items cs vs = Inr r \<Longrightarrow> item \<in> set items \<Longrightarrow> length (py_split CHR '':'' item) = 2"
proof (induction items arbitrary: cs vs)
  case Nil
  then show ?case by simp
next
  case (Cons a items)
  then show ?case
    by (auto split: list.splits option.splits)
qed

lemma parse_pairs_ValueError:
  "parse_pairs fl items cs vs = Inl e \<Longrightarrow> \<exists>rsn. e = ValueError rsn"
  by (induction items arbitrary: cs vs) (auto split: list.splits option.splits)

lemma parse_pairs_prefix_short:
  assumes "\<forall>p\<in>set pre. \<exists>c v. py_split CHR '':'' p = [c, v] \<and> fl (strip v) \<noteq> None"
    and "length (py_split CHR '':'' item) < 2"
  shows "parse_pairs fl (pre @ item # post) cs vs = Inl (ValueError NotEnoughValues)"
  using assms
proof (induction pre arbitrary: cs vs)
  case Nil
  then show ?case by (auto split: list.splits)
next
  case (Cons p pre)
  then obtain c v w where "py_split CHR '':'' p = [c, v]" "fl (strip v) = Some w"
    by auto
  with Cons show ?case by simp
qed

lemma parse_metric_items_eq:
  "parse_metric_items items acc =
     Inr (acc @ map (\<lambda>parts. \<lparr>number = strip (parts ! 0), title = strip (parts ! 1),
                                description = strip (parts ! 2)\<rparr>)
                    (filter (\<lambda>parts. 3 \<le> length parts) (map (py_split CHR '':'') items)))"
  by (induction items arbitrary: acc) (auto simp: py_nth_def Let_def)

lemma floats_of_all:
  "map (\<lambda>x. fl (strip x)) items = map Some vs \<Longrightarrow> floats_of fl items = Inr vs"
  by (induction items arbitrary: vs) auto

lemma floats_of_fail:
  "x \<in> set items \<Longrightarrow> fl (strip x) = None \<Longrightarrow> \<exists>t. floats_of fl items = Inl (ValueError (CouldNotConvert t))"
  by (induction items) (auto split: option.splits sum.splits)

subsection \<open>Records with too few fields (claim C1)\<close>

text \<open>
  Claim C1, as the code has it. In pair mode (\<^verbatim>\<open>parse_data\<close> on an input that contains a colon)
  a record with fewer than two colon-separated fields makes the parse raise a ValueError and
  return no dataset; when every earlier record has exactly two fields and a convertible value,
  that error is the unpacking error "not enough values". An input without any colon is read in
  the bare-number mode instead, where one-field records are the rule. In triple mode
  (\<^verbatim>\<open>parse_metrics_data\<close>) nothing is raised: records with fewer than three fields are skipped
  and the remaining records are returned in order, stripped.
\<close>

theorem parse_short_record:
  "(CHR '':'' \<in> set s \<longrightarrow>
      (\<exists>item\<in>set (py_split CHR '','' s). length (py_split CHR '':'' item) < 2) \<longrightarrow>
      (\<exists>rsn. parse_data fl s = Inl (ValueError rsn)))
   \<and> (CHR '':'' \<in> set s \<longrightarrow>
        py_split CHR '','' s = pre @ item # post \<longrightarrow>
        (\<forall>p\<in>set pre. \<exists>c v. py_split CHR '':'' p = [c, v] \<and> fl (strip v) \<noteq> None) \<longrightarrow>
        length (py_split CHR '':'' item) < 2 \<longrightarrow>
        parse_data fl s = Inl (ValueError NotEnoughValues))
   \<and> parse_metrics_data s =
        Inr (map (\<lambda>parts. \<lparr>number = strip (parts ! 0), title = strip (parts ! 1),
                              description = strip (parts ! 2)\<rparr>)
                 (filter (\<lambda>parts. 3 \<le> length parts)
                         (map (py_split CHR '':'') (py_split CHR '','' s))))"
proof (intro conjI impI)
  assume colon: "CHR '':'' \<in> set s"
    and short: "\<exists>item\<in>set (py_split CHR '','' s). length (py_split CHR '':'' item) < 2"
  show "\<exists>rsn. parse_data fl s = Inl (ValueError rsn)"
  proof (cases "parse_pairs fl (py_split CHR '','' s) [] []")
    case (Inl e)
    with colon show ?thesis
      using parse_pairs_ValueError [OF Inl] by (auto simp: parse_data_def)
  next
    case (Inr r)
    from short obtain item where "item \<in> set (py_split CHR '','' s)"
      and "length (py_split CHR '':'' item) < 2" by blast
    with parse_pairs_Inr_two [OF Inr] show ?thesis by fastforce
  qed
next
  assume "CHR '':'' \<in> set s" "py_split CHR '','' s = pre @ item # post"
    "\<forall>p\<in>set pre. \<exists>c v. py_split CHR '':'' p = [c, v] \<and> fl (strip v) \<noteq> None"
    "length (py_split CHR '':'' item) < 2"
  then show "parse_data fl s = Inl (ValueError NotEnoughValues)"
    by (simp add: parse_data_def parse_pairs_prefix_short)
next
  show "parse_metrics_data s =
        Inr (map (\<lambda>parts. \<lparr>number = strip (parts ! 0), title = strip (parts ! 1),
                              description = strip (parts ! 2)\<rparr>)
                 (filter (\<lambda>parts. 3 \<le> length parts)
                         (map (py_split CHR '':'') (py_split CHR '','' s))))"
    by (simp add: parse_metrics_data_def parse_metric_items_eq)
qed

text \<open>The input \<^verbatim>\<open>"A:10,B"\<close>: pair mode raises, triple mode returns the empty list.\<close>

theorem parse_short_record_witness:
  "CHR '':'' \<in> set ''A:10,B''
   \<and> py_split CHR '','' ''A:10,B'' = [''A:10''] @ ''B'' # []
   \<and> py_split CHR '':'' ''A:10'' = [''A'', ''10''] \<and> int_literal_float (strip ''10'') = Some 10
   \<and> (\<exists>item\<in>set (py_split CHR '','' ''A:10,B''). length (py_split CHR '':'' item) < 2)
   \<and> length (py_split CHR '':'' ''B'') < 2
   \<and> parse_data int_literal_float ''A:10,B'' = Inl (ValueError NotEnoughValues)
   \<and> parse_metrics_data ''A:10,B'' = Inr []"
  using parse_short_record [of "''A:10,B''" int_literal_float "[''A:10'']" "''B''" "[]"]
  by (simp add: eval_parse)

text \<open>
  Counterexample to the claim as the specification words it: a two-field record in triple mode is dropped without an
  error, and one-field records without any colon parse in pair mode.
\<close>

theorem parse_short_record_counterexample:
  "length (py_split CHR '':'' ''A:1'') < 3
   \<and> parse_metrics_data ''A:1,B:2:z'' = Inr [\<lparr>number = ''B'', title = ''2'', description = ''z''\<rparr>]
   \<and> length (py_split CHR '':'' ''10'') < 2
   \<and> parse_data int_literal_float ''10,20'' = Inr ([label_prefix @ ''1'', label_prefix @ ''2''], [10, 20])"
  by (simp add: eval_parse str_nat.simps digit_char_def)

subsection \<open>Records with too many fields in pair mode (claim C10)\<close>

text \<open>
  Claim C10: in pair mode (the input contains a colon) a record with more than two
  colon-separated fields, such as \<^verbatim>\<open>"A:10:20"\<close>, makes \<^verbatim>\<open>parse_data\<close> raise a ValueError
  (the two-variable unpacking fails, whatever \<^verbatim>\<open>float\<close> accepts); a pair-mode parse that
  succeeds has exactly two fields in every record.
\<close>

theorem parse_pair_exactly_two:
  "parse_data fl ''A:10:20'' = Inl (ValueError TooManyValues)
   \<and> (CHR '':'' \<in> set s \<longrightarrow> parse_data fl s = Inr r \<longrightarrow>
        (\<forall>item\<in>set (py_split CHR '','' s). length (py_split CHR '':'' item) = 2))
   \<and> (CHR '':'' \<in> set s \<longrightarrow>
        (\<exists>item\<in>set (py_split CHR '','' s). 2 < length (py_split CHR '':'' item)) \<longrightarrow>
        (\<exists>rsn. parse_data fl s = Inl (ValueError rsn)))"
proof (intro conjI impI)
  show "parse_data fl ''A:10:20'' = Inl (ValueError TooManyValues)"
    by (simp add: parse_data_def)
next
  assume "CHR '':'' \<in> set s" "parse_data fl s = Inr r"
  then have "parse_pairs fl (py_split CHR '','' s) [] [] = Inr r"
    by (simp add: parse_data_def)
  then show "\<forall>item\<in>set (py_split CHR '','' s). length (py_split CHR '':'' item) = 2"
    using parse_pairs_Inr_two by blast
next
  assume colon: "CHR '':'' \<in> set s"
    and long: "\<exists>item\<in>set (py_split CHR '','' s). 2 < length (py_split CHR '':'' item)"
  show "\<exists>rsn. parse_data fl s = Inl (ValueError rsn)"
  proof (cases "parse_pairs fl (py_split CHR '','' s) [] []")
    case (Inl e)
    with colon show ?thesis
      using parse_pairs_ValueError [OF Inl] by (auto simp: parse_data_def)
  next
    case (Inr r)
    from long obtain item where "item \<in> set (py_split CHR '','' s)"
      and "2 < length (py_split CHR '':'' item)" by blast
    with parse_pairs_Inr_two [OF Inr] show ?thesis by fastforce
  qed
qed

text \<open>A well-formed input that parses, and one whose second record has three fields.\<close>

theorem parse_pair_exactly_two_witness:
  "CHR '':'' \<in> set ''A:10,B:20''
   \<and> parse_data int_literal_float ''A:10,B:20'' = Inr ([''A'', ''B''], [10, 20])
   \<and> map (\<lambda>item. length (py_split CHR '':'' item)) (py_split CHR '','' ''A:10,B:20'') = [2, 2]
   \<and> CHR '':'' \<in> set ''A:10,B:1:2''
   \<and> (\<exists>item\<in>set (py_split CHR '','' ''A:10,B:1:2''). 2 < length (py_split CHR '':'' item))
   \<and> parse_data int_literal_float ''A:10,B:1:2'' = Inl (ValueError TooManyValues)"
  using parse_pair_exactly_two [of int_literal_float "''A:10,B:20''" "([''A'', ''B''], [10, 20])"]
    parse_pair_exactly_two [of int_literal_float "''A:10,B:1:2''"]
  by (simp add: eval_parse)

subsection \<open>Bare lists of numbers (claim C9)\<close>

text \<open>
  Claim C9, as the code has it. For an input without a colon whose comma-separated fields all
  convert with \<^verbatim>\<open>float\<close>, \<^verbatim>\<open>parse_data\<close> returns the values in input order, as many as there
  are comma-separated records, and labels the i-th value (0-based) with the source's label
  prefix (the CJK word U+9879 U+76EE) followed by \<open>i + 1\<close> in decimal. When some field does not
  convert, the parse raises ValueError.
\<close>

theorem parse_bare_numbers:
  "(CHR '':'' \<notin> set s \<longrightarrow> map (\<lambda>x. fl (strip x)) (py_split CHR '','' s) = map Some vs \<longrightarrow>
      parse_data fl s = Inr (map (\<lambda>i. label_prefix @ str_nat (i + 1)) [0..<length vs], vs)
      \<and> length vs = length (py_split CHR '','' s))
   \<and> (CHR '':'' \<notin> set s \<longrightarrow> (\<exists>x\<in>set (py_split CHR '','' s). fl (strip x) = None) \<longrightarrow>
        (\<exists>t. parse_data fl s = Inl (ValueError (CouldNotConvert t))))"
proof (intro conjI impI)
  assume nc: "CHR '':'' \<notin> set s"
    and all: "map (\<lambda>x. fl (strip x)) (py_split CHR '','' s) = map Some vs"
  from floats_of_all [OF all] nc
  show "parse_data fl s = Inr (map (\<lambda>i. label_prefix @ str_nat (i + 1)) [0..<length vs], vs)"
    by (simp add: parse_data_def auto_label_def)
  from all have "length (map (\<lambda>x. fl (strip x)) (py_split CHR '','' s)) = length (map Some vs)"
    by simp
  then show "length vs = length (py_split CHR '','' s)" by simp
next
  assume nc: "CHR '':'' \<notin> set s"
    and bad: "\<exists>x\<in>set (py_split CHR '','' s). fl (strip x) = None"
  then obtain x where "x \<in> set (py_split CHR '','' s)" "fl (strip x) = None" by blast
  then have "\<exists>t. floats_of fl (py_split CHR '','' s) = Inl (ValueError (CouldNotConvert t))"
    by (rule floats_of_fail)
  with nc show "\<exists>t. parse_data fl s = Inl (ValueError (CouldNotConvert t))"
    by (auto simp: parse_data_def)
qed

text \<open>Three numbers with stray blanks, and an input whose second field is not a number.\<close>

theorem parse_bare_numbers_witness:
  "CHR '':'' \<notin> set ''85, 92,88''
   \<and> map (\<lambda>x. int_literal_float (strip x)) (py_split CHR '','' ''85, 92,88'') = map Some [85, 92, 88]
   \<and> parse_data int_literal_float ''85, 92,88''
       = Inr ([label_prefix @ ''1'', label_prefix @ ''2'', label_prefix @ ''3''], [85, 92, 88])
   \<and> CHR '':'' \<notin> set ''85,x''
   \<and> (\<exists>x\<in>set (py_split CHR '','' ''85,x''). int_literal_float (strip x) = None)
   \<and> parse_data int_literal_float ''85,x'' = Inl (ValueError (CouldNotConvert ''x''))"
  using parse_bare_numbers [of "''85, 92,88''" int_literal_float "[85, 92, 88]"]
    parse_bare_numbers [of "''85,x''" int_literal_float]
  by (simp add: eval_parse str_nat.simps digit_char_def upt_conv_Cons)

text \<open>
  Counterexample to the claim as the specification words it: \<^verbatim>\<open>"abc"\<close> has no colon and is not accepted, and the label
  of the first value of \<^verbatim>\<open>"5"\<close> is not the text \<^verbatim>\<open>Item 1\<close>.
\<close>

theorem parse_bare_numbers_counterexample:
  "CHR '':'' \<notin> set ''abc''
   \<and> parse_data int_literal_float ''abc'' = Inl (ValueError (CouldNotConvert ''abc''))
   \<and> CHR '':'' \<notin> set ''5''
   \<and> parse_data int_literal_float ''5'' = Inr ([label_prefix @ ''1''], [5])
   \<and> label_prefix @ ''1'' \<noteq> ''Item 1''"
  by (simp add: eval_parse str_nat.simps digit_char_def label_prefix_def)

section \<open>Properties of the chart layouts\<close>

subsection \<open>The wedges of pie and donut\<close>

lemma py_max_Cons: "py_max (x # r) = Inr (Max (set (x # r)))"
  using Max.set_eq_fold [of x r] by (simp add: py_max_def)

lemma explode_from_eq:
  "vals \<noteq> [] \<Longrightarrow>
   explode_from vals vs = Inr (map (\<lambda>v. if v = Max (set vals) then 0.05 else 0) vs)"
proof (induction vs)
  case Nil
  then show ?case by simp
next
  case (Cons v vs)
  from Cons.prems obtain x r where "vals = x # r" by (cases vals) auto
  then have "py_max vals = Inr (Max (set vals))" by (simp only: py_max_Cons)
  with Cons show ?case by simp
qed

lemma explode_from_length: "explode_from vals vs = Inr ex \<Longrightarrow> length ex = length vs"
  by (induction vs arbitrary: ex) (auto split: sum.splits)





text \<open>What the call returns for the datasets it accepts.\<close>

lemma ax_pie_accepts:
  assumes ne: "vals \<noteq> []" and nonneg: "\<forall>v\<in>set vals. 0 \<le> v" and pos: "0 < sum_list vals"
    and ll: "length labels = length vals" and el: "length ex = length vals" and pal: "pal \<noteq> []"
  shows "ax_pie vals labels pal start ex =
           Inr (pie_wedges (start / 360)
                  (zip (map (\<lambda>v. v / sum_list vals) vals) (zip labels ex)) pal 0)"
proof -
  from nonneg have "\<not> list_ex (\<lambda>v. v < 0) vals" by (auto simp: list_ex_iff)
  with ll el pal pos show ?thesis by (simp add: ax_pie_def)
qed

lemma ax_pie_negative:
  "v \<in> set vals \<Longrightarrow> v < 0 \<Longrightarrow> ax_pie vals labels pal start ex = Inl (ValueError NegativeWedge)"
  by (auto simp: ax_pie_def list_ex_iff)

text \<open>Labels and explode offsets reach the wedges in the order given.\<close>

lemma map_wedge_explode:
  "map wedge_explode (pie_wedges theta zs pal k) = map (\<lambda>z. snd (snd z)) zs"
  by (induction zs arbitrary: theta k) (auto simp: Let_def)

lemma map_wedge_label:
  "map wedge_label (pie_wedges theta zs pal k) = map (\<lambda>z. fst (snd z)) zs"
  by (induction zs arbitrary: theta k) (auto simp: Let_def)

lemma zip3_third:
  "length a = length c \<Longrightarrow> length b = length c \<Longrightarrow> map (\<lambda>z. snd (snd z)) (zip a (zip b c)) = c"
  by (rule nth_equalityI) simp_all

lemma zip3_second:
  "length a = length b \<Longrightarrow> length c = length b \<Longrightarrow> map (\<lambda>z. fst (snd z)) (zip a (zip b c)) = b"
  by (rule nth_equalityI) simp_all


text \<open>
  For a non-empty dataset of non-negative values with a positive sum, as many categories as
  values and a scheme with a gradient, both generators return a layout in closed form. The
  explode list is computed before the call of \<^verbatim>\<open>ax.pie\<close>, whatever the call then does; a
  negative value makes the call raise.
\<close>

lemma pie_chart_accepts:
  assumes ne: "vals \<noteq> []" and nonneg: "\<forall>v\<in>set vals. 0 \<le> v" and pos: "0 < sum_list vals"
    and ll: "length categories = length vals" and grad: "gradient sch \<noteq> []"
  shows "generate_pie_chart categories vals sch =
     Inr \<lparr>pie_values = vals, pie_labels = categories,
          pie_colors = take (length categories) (gradient sch), startangle = 90,
          explode = map (\<lambda>v. if v = Max (set vals) then 0.05 else 0) vals,
          wedges = pie_wedges (90 / 360)
                     (zip (map (\<lambda>v. v / sum_list vals) vals)
                          (zip categories (map (\<lambda>v. if v = Max (set vals) then 0.05 else 0) vals)))
                     (take (length categories) (gradient sch)) 0,
          centre_radius = 0.70, centre_total = None\<rparr>"
    and "generate_donut_chart categories vals sch =
     Inr \<lparr>pie_values = vals, pie_labels = categories,
          pie_colors = take (length categories) (gradient sch), startangle = 90,
          explode = map (\<lambda>v. if v = Max (set vals) then 0.05 else 0) vals,
          wedges = pie_wedges (90 / 360)
                     (zip (map (\<lambda>v. v / sum_list vals) vals)
                          (zip categories (map (\<lambda>v. if v = Max (set vals) then 0.05 else 0) vals)))
                     (take (length categories) (gradient sch)) 0,
          centre_radius = 0.65, centre_total = Some (sum_list vals)\<rparr>"
proof -
  let ?ex = "map (\<lambda>v. if v = Max (set vals) then 0.05 else 0) vals"
  let ?pal = "take (length categories) (gradient sch)"
  from ne ll have "categories \<noteq> []" by auto
  with grad have pal: "?pal \<noteq> []" by (cases categories; cases "gradient sch") simp_all
  have ex: "explode_from vals vals = Inr ?ex" using ne by (rule explode_from_eq)
  have "ax_pie vals categories ?pal 90 ?ex =
          Inr (pie_wedges (90 / 360) (zip (map (\<lambda>v. v / sum_list vals) vals) (zip categories ?ex)) ?pal 0)"
    using ne nonneg pos ll _ pal by (rule ax_pie_accepts) simp
  with ex show "generate_pie_chart categories vals sch =
     Inr \<lparr>pie_values = vals, pie_labels = categories,
          pie_colors = ?pal, startangle = 90, explode = ?ex,
          wedges = pie_wedges (90 / 360)
                     (zip (map (\<lambda>v. v / sum_list vals) vals) (zip categories ?ex)) ?pal 0,
          centre_radius = 0.70, centre_total = None\<rparr>"
    and "generate_donut_chart categories vals sch =
     Inr \<lparr>pie_values = vals, pie_labels = categories,
          pie_colors = ?pal, startangle = 90, explode = ?ex,
          wedges = pie_wedges (90 / 360)
                     (zip (map (\<lambda>v. v / sum_list vals) vals) (zip categories ?ex)) ?pal 0,
          centre_radius = 0.65, centre_total = Some (sum_list vals)\<rparr>"
    by (simp_all add: generate_pie_chart_def generate_donut_chart_def Let_def)
qed

lemma pie_chart_explode:
  assumes ne: "vals \<noteq> []"
  shows "generate_pie_chart categories vals sch = Inr lay \<Longrightarrow>
           explode lay = map (\<lambda>v. if v = Max (set vals) then 0.05 else 0) vals"
    and "generate_donut_chart categories vals sch = Inr lay \<Longrightarrow>
           explode lay = map (\<lambda>v. if v = Max (set vals) then 0.05 else 0) vals"
  using explode_from_eq [OF ne, of vals]
  by (auto simp: generate_pie_chart_def generate_donut_chart_def Let_def split: sum.splits)

lemma pie_chart_negative:
  assumes "v \<in> set vals" "v < 0"
  shows "generate_pie_chart categories vals sch = Inl (ValueError NegativeWedge)"
    and "generate_donut_chart categories vals sch = Inl (ValueError NegativeWedge)"
proof -
  from assms have ne: "vals \<noteq> []" by auto
  from assms have "\<And>labels pal start ex. ax_pie vals labels pal start ex = Inl (ValueError NegativeWedge)"
    by (rule ax_pie_negative)
  with explode_from_eq [OF ne, of vals]
  show "generate_pie_chart categories vals sch = Inl (ValueError NegativeWedge)"
    and "generate_donut_chart categories vals sch = Inl (ValueError NegativeWedge)"
    by (simp_all add: generate_pie_chart_def generate_donut_chart_def Let_def)
qed

subsection \<open>Exploded wedges of pie and donut (claim C2)\<close>

text \<open>
  Claim C2, as the code has it. For every non-empty numeric dataset the explode list computed
  for pie and donut gives the offset 0.05 to every record whose value equals the maximum and
  the offset 0 to every other record, in insertion order: when several records tie for the
  maximum, each of them is exploded, not only the first. For the datasets \<^verbatim>\<open>ax.pie\<close> accepts
  (non-negative values with a positive sum, as many categories as values) the chart is laid out
  and wedge \<open>i\<close> carries offset \<open>i\<close>; whenever a layout is returned its explode list is the one
  above; a dataset with a negative value is refused by \<^verbatim>\<open>ax.pie\<close> with ValueError.
\<close>

theorem explode_all_maxima:
  "(vals \<noteq> [] \<longrightarrow>
      explode_from vals vals = Inr (map (\<lambda>v. if v = Max (set vals) then 0.05 else 0) vals))
   \<and> (vals \<noteq> [] \<longrightarrow> (\<forall>v\<in>set vals. 0 \<le> v) \<longrightarrow> 0 < sum_list vals \<longrightarrow>
        length categories = length vals \<longrightarrow> gradient sch \<noteq> [] \<longrightarrow>
        (\<exists>lay. generate_pie_chart categories vals sch = Inr lay
           \<and> explode lay = map (\<lambda>v. if v = Max (set vals) then 0.05 else 0) vals
           \<and> map wedge_explode (wedges lay) = explode lay
           \<and> pie_values lay = vals)
        \<and> (\<exists>lay. generate_donut_chart categories vals sch = Inr lay
           \<and> explode lay = map (\<lambda>v. if v = Max (set vals) then 0.05 else 0) vals
           \<and> map wedge_explode (wedges lay) = explode lay
           \<and> pie_values lay = vals))
   \<and> (vals \<noteq> [] \<longrightarrow> generate_pie_chart categories vals sch = Inr lay \<longrightarrow>
        explode lay = map (\<lambda>v. if v = Max (set vals) then 0.05 else 0) vals)
   \<and> (vals \<noteq> [] \<longrightarrow> generate_donut_chart categories vals sch = Inr lay \<longrightarrow>
        explode lay = map (\<lambda>v. if v = Max (set vals) then 0.05 else 0) vals)
   \<and> ((\<exists>v\<in>set vals. v < 0) \<longrightarrow>
        generate_pie_chart categories vals sch = Inl (ValueError NegativeWedge)
        \<and> generate_donut_chart categories vals sch = Inl (ValueError NegativeWedge))"
proof (intro conjI impI)
  assume "vals \<noteq> []"
  then show "explode_from vals vals = Inr (map (\<lambda>v. if v = Max (set vals) then 0.05 else 0) vals)"
    by (rule explode_from_eq)
next
  assume h: "vals \<noteq> []" "\<forall>v\<in>set vals. 0 \<le> v" "0 < sum_list vals"
    "length categories = length vals" "gradient sch \<noteq> []"
  show "\<exists>lay. generate_pie_chart categories vals sch = Inr lay
           \<and> explode lay = map (\<lambda>v. if v = Max (set vals) then 0.05 else 0) vals
           \<and> map wedge_explode (wedges lay) = explode lay
           \<and> pie_values lay = vals"
    using h(4) by (simp add: pie_chart_accepts(1) [OF h] map_wedge_explode zip3_third)
  show "\<exists>lay. generate_donut_chart categories vals sch = Inr lay
           \<and> explode lay = map (\<lambda>v. if v = Max (set vals) then 0.05 else 0) vals
           \<and> map wedge_explode (wedges lay) = explode lay
           \<and> pie_values lay = vals"
    using h(4) by (simp add: pie_chart_accepts(2) [OF h] map_wedge_explode zip3_third)
next
  assume "vals \<noteq> []" "generate_pie_chart categories vals sch = Inr lay"
  then show "explode lay = map (\<lambda>v. if v = Max (set vals) then 0.05 else 0) vals"
    by (rule pie_chart_explode(1))
next
  assume "vals \<noteq> []" "generate_donut_chart categories vals sch = Inr lay"
  then show "explode lay = map (\<lambda>v. if v = Max (set vals) then 0.05 else 0) vals"
    by (rule pie_chart_explode(2))
next
  assume "\<exists>v\<in>set vals. v < 0"
  then obtain v where v: "v \<in> set vals" "v < 0" by blast
  show "generate_pie_chart categories vals sch = Inl (ValueError NegativeWedge)"
    using v by (rule pie_chart_negative(1))
  show "generate_donut_chart categories vals sch = Inl (ValueError NegativeWedge)"
    using v by (rule pie_chart_negative(2))
qed

text \<open>
  Four products, two of them sharing the maximum 30; and the dataset \<^verbatim>\<open>A:-1,B:2\<close>, which is
  refused.
\<close>

lemmas eval_pie = generate_pie_chart_def generate_donut_chart_def ax_pie_def py_max_def Let_def
  scheme_of_def chart_COLOR_SCHEMES_def

theorem explode_all_maxima_witness:
  "[30, 25, 30, 20 :: real] \<noteq> []
   \<and> list_all (\<lambda>v. 0 \<le> v) [30, 25, 30, 20 :: real]
   \<and> 0 < sum_list [30, 25, 30, 20 :: real]
   \<and> length [''a'', ''b'', ''c'', ''d''] = length [30, 25, 30, 20 :: real]
   \<and> Max (set [30, 25, 30, 20 :: real]) = 30
   \<and> \<not> isl (scheme_of chart_COLOR_SCHEMES ''green'')
   \<and> gradient (projr (scheme_of chart_COLOR_SCHEMES ''green'')) \<noteq> []
   \<and> (\<exists>lay. generate_pie_chart [''a'', ''b'', ''c'', ''d''] [30, 25, 30, 20]
                (projr (scheme_of chart_COLOR_SCHEMES ''green'')) = Inr lay
           \<and> explode lay = [0.05, 0, 0.05, 0]
           \<and> map wedge_explode (wedges lay) = [0.05, 0, 0.05, 0])
   \<and> (\<exists>lay. generate_donut_chart [''a'', ''b'', ''c'', ''d''] [30, 25, 30, 20]
                (projr (scheme_of chart_COLOR_SCHEMES ''green'')) = Inr lay
           \<and> explode lay = [0.05, 0, 0.05, 0]
           \<and> map wedge_explode (wedges lay) = [0.05, 0, 0.05, 0])
   \<and> list_ex (\<lambda>v. v < 0) [- 1, 2 :: real]
   \<and> generate_pie_chart [''A'', ''B''] [- 1, 2] (projr (scheme_of chart_COLOR_SCHEMES ''green''))
       = Inl (ValueError NegativeWedge)
   \<and> generate_donut_chart [''A'', ''B''] [- 1, 2] (projr (scheme_of chart_COLOR_SCHEMES ''green''))
       = Inl (ValueError NegativeWedge)"
proof -
  let ?sch = "projr (scheme_of chart_COLOR_SCHEMES ''green'')"
  have g: "gradient ?sch \<noteq> []" and s: "\<not> isl (scheme_of chart_COLOR_SCHEMES ''green'')"
    by (simp_all add: scheme_of_def chart_COLOR_SCHEMES_def)
  have m: "Max (set [30, 25, 30, 20 :: real]) = 30" by simp
  have "(\<exists>lay. generate_pie_chart [''a'', ''b'', ''c'', ''d''] [30, 25, 30, 20] ?sch = Inr lay
           \<and> explode lay = [0.05, 0, 0.05, 0]
           \<and> map wedge_explode (wedges lay) = explode lay
           \<and> pie_values lay = [30, 25, 30, 20])
       \<and> (\<exists>lay. generate_donut_chart [''a'', ''b'', ''c'', ''d''] [30, 25, 30, 20] ?sch = Inr lay
           \<and> explode lay = [0.05, 0, 0.05, 0]
           \<and> map wedge_explode (wedges lay) = explode lay
           \<and> pie_values lay = [30, 25, 30, 20])"
    using explode_all_maxima [of "[30, 25, 30, 20]" "[''a'', ''b'', ''c'', ''d'']" ?sch,
        THEN conjunct2, THEN conjunct1] g m
    by simp
  then have "(\<exists>lay. generate_pie_chart [''a'', ''b'', ''c'', ''d''] [30, 25, 30, 20] ?sch = Inr lay
           \<and> explode lay = [0.05, 0, 0.05, 0]
           \<and> map wedge_explode (wedges lay) = [0.05, 0, 0.05, 0])
       \<and> (\<exists>lay. generate_donut_chart [''a'', ''b'', ''c'', ''d''] [30, 25, 30, 20] ?sch = Inr lay
           \<and> explode lay = [0.05, 0, 0.05, 0]
           \<and> map wedge_explode (wedges lay) = [0.05, 0, 0.05, 0])"
    by auto
  moreover
  from explode_all_maxima [of "[- 1, 2]" "[''A'', ''B'']" ?sch,
      THEN conjunct2, THEN conjunct2, THEN conjunct2, THEN conjunct2]
  have "generate_pie_chart [''A'', ''B''] [- 1, 2] ?sch = Inl (ValueError NegativeWedge)
      \<and> generate_donut_chart [''A'', ''B''] [- 1, 2] ?sch = Inl (ValueError NegativeWedge)"
    by simp
  ultimately show ?thesis using g s m by simp
qed

text \<open>
  Counterexample to the claim as the specification words it: with the values 5 and 5 the second
  record ties for the maximum, is not the first occurrence, and is exploded all the same.
\<close>

theorem explode_first_only_counterexample:
  "\<not> isl (generate_pie_chart [''a'', ''b''] [5, 5] (projr (scheme_of chart_COLOR_SCHEMES ''green'')))
   \<and> explode (projr (generate_pie_chart [''a'', ''b''] [5, 5]
         (projr (scheme_of chart_COLOR_SCHEMES ''green'')))) = [0.05, 0.05]
   \<and> \<not> isl (generate_donut_chart [''a'', ''b''] [5, 5] (projr (scheme_of chart_COLOR_SCHEMES ''green'')))
   \<and> explode (projr (generate_donut_chart [''a'', ''b''] [5, 5]
         (projr (scheme_of chart_COLOR_SCHEMES ''green'')))) = [0.05, 0.05]
   \<and> (0.05 :: real) \<noteq> 0"
  by (simp add: eval_pie)

subsection \<open>Arc sweeps of pie and donut (claim C7)\<close>






subsection \<open>Waterfall bars and connectors (claim C4)\<close>

text \<open>The list built by the cumulative loop holds the running totals of its input.\<close>

lemma running_totals:
  "length (foldl (\<lambda>cum v. cum @ [last cum + v]) [0] xs) = Suc (length xs)
   \<and> (\<forall>i\<le>length xs. foldl (\<lambda>cum v. cum @ [last cum + v]) [0::real] xs ! i = sum_list (take i xs))"
proof (induction xs rule: rev_induct)
  case Nil
  then show ?case by simp
next
  case (snoc x xs)
  let ?c = "foldl (\<lambda>cum v. cum @ [last cum + v]) [0::real] xs"
  from snoc have len: "length ?c = Suc (length xs)"
    and nth: "\<And>i. i \<le> length xs \<Longrightarrow> ?c ! i = sum_list (take i xs)" by auto
  from len have "?c \<noteq> []" by auto
  then have "last ?c = ?c ! length xs" using len by (simp add: last_conv_nth)
  with nth [of "length xs"] have last: "last ?c = sum_list xs" by simp
  show ?case
  proof (intro conjI allI impI)
    show "length (foldl (\<lambda>cum v. cum @ [last cum + v]) [0] (xs @ [x])) = Suc (length (xs @ [x]))"
      using len by simp
  next
    fix i assume "i \<le> length (xs @ [x])"
    then consider "i \<le> length xs" | "i = Suc (length xs)" by fastforce
    then show "foldl (\<lambda>cum v. cum @ [last cum + v]) [0] (xs @ [x]) ! i = sum_list (take i (xs @ [x]))"
    proof cases
      case 1
      then show ?thesis using len nth [of i] by (simp add: nth_append)
    next
      case 2
      then show ?thesis using len last by (simp add: nth_append)
    qed
  qed
qed

lemma cumulative_of_length: "vals \<noteq> [] \<Longrightarrow> length (cumulative_of vals) = length vals"
  using running_totals [of "butlast vals"] by (simp add: cumulative_of_def)

lemma cumulative_of_nth:
  assumes "i < length vals"
  shows "cumulative_of vals ! i = sum_list (take i vals)"
proof -
  from assms have "i \<le> length (butlast vals)" by simp
  with running_totals [of "butlast vals"]
  have "cumulative_of vals ! i = sum_list (take i (butlast vals))"
    by (simp add: cumulative_of_def)
  also from assms have "take i (butlast vals) = take i vals" by (simp add: take_butlast)
  finally show ?thesis .
qed

lemma sequence_res_all_Inr:
  "(\<And>x. x \<in> set xs \<Longrightarrow> g x = Inr (f x)) \<Longrightarrow> sequence_res (map g xs) = Inr (map f xs)"
  by (induction xs) auto

lemma waterfall_colors_length: "length (waterfall_colors vals sch) = length vals"
  by (simp add: waterfall_colors_def)

text \<open>
  For categories and values of the same non-zero length the generator raises nothing and its
  bars and connectors have the closed form below.
\<close>

lemma waterfall_result:
  assumes len: "length categories = length vals" and ne: "vals \<noteq> []"
  shows "generate_waterfall_chart categories vals sch =
     Inr \<lparr>bars = map (\<lambda>i. \<lparr>bar_x = i, bar_height = vals ! i,
                              bar_bottom = (if Suc i = length vals then 0 else sum_list (take i vals)),
                              bar_color = waterfall_colors vals sch ! i\<rparr>)
                       [0..<length vals],
          connectors = map (\<lambda>i. \<lparr>line_x_from = real i + 0.3, line_x_to = real i + 0.7,
                                    line_y = sum_list (take (Suc i) vals)\<rparr>)
                           [0..<length vals - 2]\<rparr>"
proof -
  let ?n = "length vals"
  let ?cum = "cumulative_of vals"
  let ?cols = "waterfall_colors vals sch"
  let ?es = "enumerate 0 (zip categories (zip vals ?cum))"
  let ?g = "\<lambda>(i, cat, val, cum).
              case py_nth ?cols i of
                Inl e \<Rightarrow> Inl e
              | Inr c \<Rightarrow>
                  Inr \<lparr>bar_x = i, bar_height = val,
                       bar_bottom = (if int i = int (length categories) - 1 then 0 else cum),
                       bar_color = c\<rparr>"
  let ?f = "\<lambda>(i, cat, val, cum).
              \<lparr>bar_x = i, bar_height = val,
               bar_bottom = (if int i = int (length categories) - 1 then 0 else cum),
               bar_color = ?cols ! i\<rparr>"
  let ?h = "\<lambda>i. case py_nth ?cum (i + 1) of
                   Inl e \<Rightarrow> Inl e
                 | Inr y \<Rightarrow> Inr \<lparr>line_x_from = real i + 0.3, line_x_to = real i + 0.7, line_y = y\<rparr>"
  let ?k = "\<lambda>i. \<lparr>line_x_from = real i + 0.3, line_x_to = real i + 0.7, line_y = ?cum ! (i + 1)\<rparr>"
  have clen: "length ?cum = ?n" using ne by (rule cumulative_of_length)
  have eslen: "length ?es = ?n" using len clen by simp
  have "sequence_res (map ?g ?es) = Inr (map ?f ?es)"
  proof (rule sequence_res_all_Inr)
    fix x assume "x \<in> set ?es"
    then have "fst x < ?n" using eslen by (auto simp: in_set_enumerate_eq)
    then show "?g x = Inr (?f x)"
      by (cases x) (auto simp: py_nth_def waterfall_colors_length)
  qed
  moreover have "map ?f ?es = map (\<lambda>i. \<lparr>bar_x = i, bar_height = vals ! i,
                              bar_bottom = (if Suc i = length vals then 0 else sum_list (take i vals)),
                              bar_color = ?cols ! i\<rparr>) [0..<?n]"
  proof (rule nth_equalityI)
    show "length (map ?f ?es) = length (map (\<lambda>i. \<lparr>bar_x = i, bar_height = vals ! i,
                              bar_bottom = (if Suc i = length vals then 0 else sum_list (take i vals)),
                              bar_color = ?cols ! i\<rparr>) [0..<?n])"
      using eslen by simp
  next
    fix i assume "i < length (map ?f ?es)"
    then have i: "i < ?n" using eslen by simp
    then have "?es ! i = (i, categories ! i, vals ! i, ?cum ! i)"
      using len clen by (simp add: nth_enumerate_eq)
    moreover have "?cum ! i = sum_list (take i vals)" using i by (rule cumulative_of_nth)
    moreover have "(int i = int (length categories) - 1) = (Suc i = length vals)"
      using len by auto
    ultimately show "map ?f ?es ! i = map (\<lambda>i. \<lparr>bar_x = i, bar_height = vals ! i,
                              bar_bottom = (if Suc i = length vals then 0 else sum_list (take i vals)),
                              bar_color = ?cols ! i\<rparr>) [0..<?n] ! i"
      using i eslen by simp
  qed
  moreover have idx: "nat (int (length categories) - 2) = ?n - 2" using len by simp
  moreover have "sequence_res (map ?h [0..<?n - 2]) = Inr (map ?k [0..<?n - 2])"
  proof (rule sequence_res_all_Inr)
    fix i assume "i \<in> set [0..<?n - 2]"
    then have "i + 1 < length ?cum" using clen by auto
    then show "?h i = Inr (?k i)" by (simp add: py_nth_def)
  qed
  moreover have "map ?k [0..<?n - 2] = map (\<lambda>i. \<lparr>line_x_from = real i + 0.3, line_x_to = real i + 0.7,
                                    line_y = sum_list (take (Suc i) vals)\<rparr>) [0..<?n - 2]"
  proof (rule map_cong [OF refl])
    fix i assume "i \<in> set [0..<?n - 2]"
    then have "Suc i < ?n" by auto
    then have "?cum ! (Suc i) = sum_list (take (Suc i) vals)" by (rule cumulative_of_nth)
    then show "?k i = \<lparr>line_x_from = real i + 0.3, line_x_to = real i + 0.7,
                                    line_y = sum_list (take (Suc i) vals)\<rparr>" by simp
  qed
  ultimately show ?thesis
    by (simp add: generate_waterfall_chart_def Let_def)
qed

text \<open>
  Claim C4: for a numeric dataset of length \<open>n \<ge> 2\<close> laid out as waterfall, bar 0 is drawn from
  0 with height \<open>values[0]\<close>; each intermediate bar \<open>i\<close> (\<open>0 < i < n - 1\<close>) starts at the sum of
  \<open>values[0..i-1]\<close> and extends by the signed \<open>values[i]\<close>; the final bar is drawn from 0 to
  \<open>values[n-1]\<close> whatever the running total; and there are \<open>n - 2\<close> connector lines, the
  \<open>i\<close>-th from \<open>i + 0.3\<close> to \<open>i + 0.7\<close> at the running total after bar \<open>i\<close>, so that no line is
  drawn at the level reached just before the final bar.
\<close>

theorem waterfall_bars_and_connectors:
  "length categories = length vals \<longrightarrow> 2 \<le> length vals \<longrightarrow>
     (\<exists>lay. generate_waterfall_chart categories vals sch = Inr lay
        \<and> length (bars lay) = length vals
        \<and> (\<forall>i<length vals. bar_x (bars lay ! i) = i \<and> bar_height (bars lay ! i) = vals ! i)
        \<and> bar_bottom (bars lay ! 0) = 0
        \<and> (\<forall>i. 0 < i \<and> i < length vals - 1 \<longrightarrow>
              bar_bottom (bars lay ! i) = sum_list (take i vals))
        \<and> bar_bottom (bars lay ! (length vals - 1)) = 0
        \<and> bar_height (bars lay ! (length vals - 1)) = vals ! (length vals - 1)
        \<and> length (connectors lay) = length vals - 2
        \<and> (\<forall>i<length vals - 2.
              line_y (connectors lay ! i) = sum_list (take (Suc i) vals)
              \<and> line_x_from (connectors lay ! i) = real i + 0.3
              \<and> line_x_to (connectors lay ! i) = real i + 0.7))"
proof (intro impI)
  assume len: "length categories = length vals" and two: "2 \<le> length vals"
  then have ne: "vals \<noteq> []" by auto
  let ?lay = "\<lparr>bars = map (\<lambda>i. \<lparr>bar_x = i, bar_height = vals ! i,
                              bar_bottom = (if Suc i = length vals then 0 else sum_list (take i vals)),
                              bar_color = waterfall_colors vals sch ! i\<rparr>)
                       [0..<length vals],
          connectors = map (\<lambda>i. \<lparr>line_x_from = real i + 0.3, line_x_to = real i + 0.7,
                                    line_y = sum_list (take (Suc i) vals)\<rparr>)
                           [0..<length vals - 2]\<rparr>"
  from two have pos: "0 < length vals" and last: "length vals - 1 < length vals"
    and suc: "Suc (length vals - 1) = length vals" and nz: "Suc 0 \<noteq> length vals" by auto
  show "\<exists>lay. generate_waterfall_chart categories vals sch = Inr lay
        \<and> length (bars lay) = length vals
        \<and> (\<forall>i<length vals. bar_x (bars lay ! i) = i \<and> bar_height (bars lay ! i) = vals ! i)
        \<and> bar_bottom (bars lay ! 0) = 0
        \<and> (\<forall>i. 0 < i \<and> i < length vals - 1 \<longrightarrow>
              bar_bottom (bars lay ! i) = sum_list (take i vals))
        \<and> bar_bottom (bars lay ! (length vals - 1)) = 0
        \<and> bar_height (bars lay ! (length vals - 1)) = vals ! (length vals - 1)
        \<and> length (connectors lay) = length vals - 2
        \<and> (\<forall>i<length vals - 2.
              line_y (connectors lay ! i) = sum_list (take (Suc i) vals)
              \<and> line_x_from (connectors lay ! i) = real i + 0.3
              \<and> line_x_to (connectors lay ! i) = real i + 0.7)"
  proof (intro exI [of _ ?lay] conjI)
    show "generate_waterfall_chart categories vals sch = Inr ?lay"
      by (rule waterfall_result [OF len ne])
    show "length (bars ?lay) = length vals" by simp
    show "\<forall>i<length vals. bar_x (bars ?lay ! i) = i \<and> bar_height (bars ?lay ! i) = vals ! i"
      by simp
    show "bar_bottom (bars ?lay ! 0) = 0" using pos nz by simp
    show "\<forall>i. 0 < i \<and> i < length vals - 1 \<longrightarrow>
              bar_bottom (bars ?lay ! i) = sum_list (take i vals)" by auto
    show "bar_bottom (bars ?lay ! (length vals - 1)) = 0" using last suc by simp
    show "bar_height (bars ?lay ! (length vals - 1)) = vals ! (length vals - 1)" using last by simp
    show "length (connectors ?lay) = length vals - 2" by simp
    show "\<forall>i<length vals - 2.
              line_y (connectors ?lay ! i) = sum_list (take (Suc i) vals)
              \<and> line_x_from (connectors ?lay ! i) = real i + 0.3
              \<and> line_x_to (connectors ?lay ! i) = real i + 0.7" by simp
  qed
qed

text \<open>
  Four records whose last value, 200, differs from the running total 127: the last bar has
  height 200 from 0, and the two connectors sit at 100 and 135.
\<close>

theorem waterfall_bars_and_connectors_witness:
  "\<not> isl (parse_data int_literal_float ''Base:100,Growth:+35,Cost:-8,Total:200'')
   \<and> projr (parse_data int_literal_float ''Base:100,Growth:+35,Cost:-8,Total:200'')
       = ([''Base'', ''Growth'', ''Cost'', ''Total''], [100, 35, - 8, 200])
   \<and> length [''Base'', ''Growth'', ''Cost'', ''Total''] = length [100, 35, - 8, 200 :: real]
   \<and> 2 \<le> length [100, 35, - 8, 200 :: real]
   \<and> (\<exists>lay. generate_waterfall_chart [''Base'', ''Growth'', ''Cost'', ''Total''] [100, 35, - 8, 200]
                (projr (scheme_of chart_COLOR_SCHEMES ''blue'')) = Inr lay
         \<and> length (bars lay) = 4
         \<and> bar_bottom (bars lay ! 0) = 0 \<and> bar_height (bars lay ! 0) = 100
         \<and> bar_bottom (bars lay ! 1) = 100 \<and> bar_height (bars lay ! 1) = 35
         \<and> bar_bottom (bars lay ! 2) = 135 \<and> bar_height (bars lay ! 2) = - 8
         \<and> bar_bottom (bars lay ! 3) = 0 \<and> bar_height (bars lay ! 3) = 200
         \<and> length (connectors lay) = 2
         \<and> line_y (connectors lay ! 0) = 100
         \<and> line_y (connectors lay ! 1) = 135)"
proof -
  let ?cats = "[''Base'', ''Growth'', ''Cost'', ''Total'']"
  let ?vals = "[100, 35, - 8, 200 :: real]"
  let ?sch = "projr (scheme_of chart_COLOR_SCHEMES ''blue'')"
  have parsed: "parse_data int_literal_float ''Base:100,Growth:+35,Cost:-8,Total:200'' = Inr (?cats, ?vals)"
    by (simp add: eval_parse)
  have h1: "length ?cats = length ?vals" and h2: "2 \<le> length ?vals" by simp_all
  from waterfall_bars_and_connectors [of ?cats ?vals ?sch] h1 h2 obtain lay where
    g: "generate_waterfall_chart ?cats ?vals ?sch = Inr lay"
    and bl: "length (bars lay) = length ?vals"
    and bh: "\<forall>i<length ?vals. bar_x (bars lay ! i) = i \<and> bar_height (bars lay ! i) = ?vals ! i"
    and b0: "bar_bottom (bars lay ! 0) = 0"
    and bi: "\<forall>i. 0 < i \<and> i < length ?vals - 1 \<longrightarrow> bar_bottom (bars lay ! i) = sum_list (take i ?vals)"
    and bn: "bar_bottom (bars lay ! (length ?vals - 1)) = 0"
    and cl: "length (connectors lay) = length ?vals - 2"
    and ci: "\<forall>i<length ?vals - 2. line_y (connectors lay ! i) = sum_list (take (Suc i) ?vals)
              \<and> line_x_from (connectors lay ! i) = real i + 0.3
              \<and> line_x_to (connectors lay ! i) = real i + 0.7"
    by blast
  from bh have heights: "bar_height (bars lay ! 0) = 100" "bar_height (bars lay ! 1) = 35"
    "bar_height (bars lay ! 2) = - 8" "bar_height (bars lay ! 3) = 200" by simp_all
  from bi have "bar_bottom (bars lay ! 1) = sum_list (take 1 ?vals)"
    and "bar_bottom (bars lay ! 2) = sum_list (take 2 ?vals)" by simp_all
  then have bottoms: "bar_bottom (bars lay ! 1) = 100" "bar_bottom (bars lay ! 2) = 135"
    by (simp_all add: numeral_2_eq_2)
  from bn have b3: "bar_bottom (bars lay ! 3) = 0" by (simp add: eval_nat_numeral)
  from ci have "line_y (connectors lay ! 0) = sum_list (take (Suc 0) ?vals)"
    and "line_y (connectors lay ! 1) = sum_list (take (Suc 1) ?vals)" by simp_all
  then have lines: "line_y (connectors lay ! 0) = 100" "line_y (connectors lay ! 1) = 135"
    by simp_all
  have "\<exists>lay. generate_waterfall_chart ?cats ?vals ?sch = Inr lay
         \<and> length (bars lay) = 4
         \<and> bar_bottom (bars lay ! 0) = 0 \<and> bar_height (bars lay ! 0) = 100
         \<and> bar_bottom (bars lay ! 1) = 100 \<and> bar_height (bars lay ! 1) = 35
         \<and> bar_bottom (bars lay ! 2) = 135 \<and> bar_height (bars lay ! 2) = - 8
         \<and> bar_bottom (bars lay ! 3) = 0 \<and> bar_height (bars lay ! 3) = 200
         \<and> length (connectors lay) = 2
         \<and> line_y (connectors lay ! 0) = 100
         \<and> line_y (connectors lay ! 1) = 135"
    using g bl b0 heights bottoms b3 cl lines by (intro exI [of _ lay]) simp
  with parsed h1 h2 show ?thesis by simp
qed

subsection \<open>Radar angles and the closed polygon (claim C6)\<close>

lemma linspace_open:
  "0 < n \<Longrightarrow> linspace 0 stop n False = map (\<lambda>i. stop * real i / real n) [0..<n]"
  by (simp add: linspace_def Let_def)

text \<open>
  Claim C6, as the code has it. For a radar dataset of \<open>n \<ge> 1\<close> categories with as many
  values, the angular positions are \<open>2 * pi * i / n\<close> for \<open>i\<close> in \<open>[0, n)\<close> in insertion order,
  and the polygon is closed by appending a copy of the first point: the appended angle is the
  first angle itself, that is 0 (not the first angle plus a full turn), and the appended value
  is the first value. The tick positions are the \<open>n\<close> angles without the appended one.
\<close>

theorem radar_angles_closed:
  "categories \<noteq> [] \<longrightarrow> length vals = length categories \<longrightarrow>
     (\<exists>lay. generate_radar_chart categories vals sch = Inr lay
        \<and> length (angles lay) = Suc (length categories)
        \<and> length (values_plot lay) = Suc (length categories)
        \<and> (\<forall>i<length categories.
              angles lay ! i = 2 * pi * real i / real (length categories)
              \<and> values_plot lay ! i = vals ! i)
        \<and> angles lay ! length categories = angles lay ! 0
        \<and> angles lay ! length categories = 0
        \<and> values_plot lay ! length categories = values_plot lay ! 0
        \<and> xticks lay = map (\<lambda>i. 2 * pi * real i / real (length categories)) [0..<length categories])"
proof (intro impI)
  assume ne: "categories \<noteq> []" and len: "length vals = length categories"
  define n where "n = length categories"
  define as where "as = map (\<lambda>i. 2 * pi * real i / real n) [0..<n]"
  define lay where "lay = \<lparr>angles = as @ [0], values_plot = vals @ [vals ! 0],
                            xticks = as, line_color = primary sch\<rparr>"
  from ne have pos: "0 < n" by (simp add: n_def)
  have alen: "length as = n" by (simp add: as_def)
  have anth: "as ! i = 2 * pi * real i / real n" if "i < n" for i
    using that by (simp add: as_def)
  from anth [OF pos] have a0: "as ! 0 = 0" by simp
  from pos alen have "as \<noteq> []" by auto
  then have tk: "take 1 as = [0]" using a0 by (cases as) simp_all
  have gen: "generate_radar_chart categories vals sch = Inr lay"
    using pos len tk
    by (simp add: generate_radar_chart_def Let_def linspace_open py_nth_def lay_def
        n_def [symmetric] as_def [symmetric])
  have "length (angles lay) = Suc n" by (simp add: lay_def alen)
  moreover have "length (values_plot lay) = Suc n" using len by (simp add: lay_def n_def)
  moreover have "\<forall>i<n. angles lay ! i = 2 * pi * real i / real n \<and> values_plot lay ! i = vals ! i"
    using len anth alen by (simp add: lay_def nth_append n_def)
  moreover have "angles lay ! n = 0" using alen by (simp add: lay_def nth_append)
  moreover have "angles lay ! 0 = 0" using alen pos a0 by (simp add: lay_def nth_append)
  moreover have "values_plot lay ! n = values_plot lay ! 0"
    using len pos by (simp add: lay_def nth_append n_def)
  moreover have "xticks lay = map (\<lambda>i. 2 * pi * real i / real n) [0..<n]"
    by (simp add: lay_def as_def)
  ultimately show "\<exists>lay. generate_radar_chart categories vals sch = Inr lay
        \<and> length (angles lay) = Suc (length categories)
        \<and> length (values_plot lay) = Suc (length categories)
        \<and> (\<forall>i<length categories.
              angles lay ! i = 2 * pi * real i / real (length categories)
              \<and> values_plot lay ! i = vals ! i)
        \<and> angles lay ! length categories = angles lay ! 0
        \<and> angles lay ! length categories = 0
        \<and> values_plot lay ! length categories = values_plot lay ! 0
        \<and> xticks lay = map (\<lambda>i. 2 * pi * real i / real (length categories)) [0..<length categories]"
    using gen unfolding n_def [symmetric] by (intro exI [of _ lay]) simp
qed

text \<open>Five categories: 0, 72, 144, 216 and 288 degrees in radians, then 0 again.\<close>

lemmas eval_radar = generate_radar_chart_def linspace_def py_nth_def Let_def upt_conv_Cons

theorem radar_angles_closed_witness:
  "[''a'', ''b'', ''c'', ''d'', ''e''] \<noteq> []
   \<and> length [85, 92, 78, 88, 90 :: real] = length [''a'', ''b'', ''c'', ''d'', ''e'']
   \<and> (\<exists>lay. generate_radar_chart [''a'', ''b'', ''c'', ''d'', ''e''] [85, 92, 78, 88, 90]
                (projr (scheme_of chart_COLOR_SCHEMES ''multilayer'')) = Inr lay
         \<and> length (angles lay) = 6
         \<and> angles lay ! 0 = 0
         \<and> angles lay ! 1 = 72 * (pi / 180)
         \<and> angles lay ! 2 = 144 * (pi / 180)
         \<and> angles lay ! 3 = 216 * (pi / 180)
         \<and> angles lay ! 4 = 288 * (pi / 180)
         \<and> angles lay ! 5 = 0
         \<and> values_plot lay ! 5 = 85 \<and> values_plot lay ! 0 = 85)"
proof -
  let ?cats = "[''a'', ''b'', ''c'', ''d'', ''e'']"
  let ?vals = "[85, 92, 78, 88, 90 :: real]"
  let ?sch = "projr (scheme_of chart_COLOR_SCHEMES ''multilayer'')"
  have h1: "?cats \<noteq> []" and h2: "length ?vals = length ?cats" by simp_all
  from radar_angles_closed [of ?cats ?vals ?sch] h1 h2 obtain lay where
    g: "generate_radar_chart ?cats ?vals ?sch = Inr lay"
    and la: "length (angles lay) = Suc (length ?cats)"
    and nth: "\<forall>i<length ?cats. angles lay ! i = 2 * pi * real i / real (length ?cats)
                \<and> values_plot lay ! i = ?vals ! i"
    and an: "angles lay ! length ?cats = 0"
    and vn: "values_plot lay ! length ?cats = values_plot lay ! 0"
    by blast
  have a: "angles lay ! 0 = 0" "angles lay ! 1 = 72 * (pi / 180)"
    "angles lay ! 2 = 144 * (pi / 180)" "angles lay ! 3 = 216 * (pi / 180)"
    "angles lay ! 4 = 288 * (pi / 180)"
    using nth [THEN spec, of 0] nth [THEN spec, of 1] nth [THEN spec, of 2]
      nth [THEN spec, of 3] nth [THEN spec, of 4] by simp_all
  have v0: "values_plot lay ! 0 = 85" using nth [THEN spec, of 0] by simp
  from an have a5: "angles lay ! 5 = 0" by (simp add: eval_nat_numeral)
  from vn v0 have v5: "values_plot lay ! 5 = 85" by (simp add: eval_nat_numeral)
  have "\<exists>lay. generate_radar_chart ?cats ?vals ?sch = Inr lay
         \<and> length (angles lay) = 6
         \<and> angles lay ! 0 = 0
         \<and> angles lay ! 1 = 72 * (pi / 180)
         \<and> angles lay ! 2 = 144 * (pi / 180)
         \<and> angles lay ! 3 = 216 * (pi / 180)
         \<and> angles lay ! 4 = 288 * (pi / 180)
         \<and> angles lay ! 5 = 0
         \<and> values_plot lay ! 5 = 85 \<and> values_plot lay ! 0 = 85"
    using g la a a5 v0 v5 by (intro exI [of _ lay]) simp
  with h1 h2 show ?thesis by blast
qed

text \<open>
  Counterexample to the claim as the specification words it: for five categories the appended angle is not the first
  angle plus \<open>2 * pi\<close>.
\<close>

theorem radar_full_turn_counterexample:
  "\<not> isl (generate_radar_chart [''a'', ''b'', ''c'', ''d'', ''e''] [85, 92, 78, 88, 90]
            (projr (scheme_of chart_COLOR_SCHEMES ''multilayer'')))
   \<and> angles (projr (generate_radar_chart [''a'', ''b'', ''c'', ''d'', ''e''] [85, 92, 78, 88, 90]
                (projr (scheme_of chart_COLOR_SCHEMES ''multilayer'')))) ! 5
       \<noteq> angles (projr (generate_radar_chart [''a'', ''b'', ''c'', ''d'', ''e''] [85, 92, 78, 88, 90]
                (projr (scheme_of chart_COLOR_SCHEMES ''multilayer'')))) ! 0 + 2 * pi"
  by (simp add: eval_radar)

section \<open>Properties of the big-number grid (claim C8)\<close>

lemma ceil_third: "(n + 2) div 3 = nat \<lceil>real n / 3\<rceil>"
proof -
  have "\<lceil>real n / 3\<rceil> = \<lceil>of_int (int n) / (of_int 3 :: real)\<rceil>" by simp
  also have "\<dots> = - (- int n div 3)" by (simp only: ceiling_divide_eq_div)
  finally have "\<lceil>real n / 3\<rceil> = - (- int n div 3)" .
  moreover have "- (- int n div 3) = int ((n + 2) div 3)" by (simp add: zdiv_int)
  ultimately show ?thesis by simp
qed

lemma grid_shape_fits:
  "0 < n \<Longrightarrow> grid_shape n = (c, r, fs) \<Longrightarrow> 0 < r \<and> 0 < c \<and> n \<le> r * c"
  by (auto simp: grid_shape_def split: if_splits)

lemma fill_cycle: "[p, a] ! (i mod 2) = (if even i then p else a)"
  by (cases "even i") (auto simp: odd_iff_mod_2_eq_one)

text \<open>
  Claim C8: for a metrics list of length \<open>n \<ge> 1\<close> the generator succeeds and the grid depends
  on \<open>n\<close> alone: one row of \<open>n\<close> columns for \<open>n \<le> 2\<close>, a 2 by 2 grid for \<open>n\<close> of 3 or 4,
  three columns and \<open>\<lceil>n / 3\<rceil>\<close> rows from 5 on. All \<open>rows * cols\<close> cells are allocated; cell \<open>i\<close>
  below \<open>n\<close> is the card of metric \<open>i\<close>, filled with the primary colour for even \<open>i\<close> and the
  accent colour for odd \<open>i\<close>, whatever its row and column; the remaining \<open>rows * cols - n\<close> cells
  are hidden.
\<close>

theorem big_number_grid:
  "metrics \<noteq> [] \<longrightarrow>
     (\<exists>lay. generate_big_number_cards metrics sch = Inr lay
        \<and> rows lay = (if length metrics \<le> 2 then 1 else if length metrics \<le> 4 then 2
                       else nat \<lceil>real (length metrics) / 3\<rceil>)
        \<and> cols lay = (if length metrics \<le> 2 then length metrics else if length metrics \<le> 4 then 2
                       else 3)
        \<and> length (cells lay) = rows lay * cols lay
        \<and> length metrics \<le> rows lay * cols lay
        \<and> (\<forall>i<length metrics.
              cells lay ! i = Card (if even i then primary sch else accent sch) (metrics ! i))
        \<and> (\<forall>i. length metrics \<le> i \<and> i < rows lay * cols lay \<longrightarrow> cells lay ! i = Hidden))"
proof
  assume ne: "metrics \<noteq> []"
  define n where "n = length metrics"
  obtain c r fs where gs: "grid_shape n = (c, r, fs)" by (cases "grid_shape n") auto
  from ne have pos: "0 < n" by (simp add: n_def)
  from grid_shape_fits [OF pos gs] have r: "0 < r" and c: "0 < c" and fit: "n \<le> r * c" by auto
  define cs where "cs = map (\<lambda>(i, ax, m). Card ([primary sch, accent sch] ! (i mod 2)) m)
                            (enumerate 0 (zip (take n [0..<r * c]) metrics))
                        @ map (\<lambda>ax. Hidden) (drop n [0..<r * c])"
  define lay where "lay = \<lparr>rows = r, cols = c, figsize = fs, cells = cs\<rparr>"
  have gen: "generate_big_number_cards metrics sch = Inr lay"
    using gs r c by (simp add: generate_big_number_cards_def Let_def n_def [symmetric] lay_def cs_def)
  have len1: "length (enumerate 0 (zip (take n [0..<r * c]) metrics)) = n"
    using fit by (simp add: n_def)
  have len: "length cs = r * c"
    using fit by (simp add: cs_def n_def)
  have card: "cs ! i = Card (if even i then primary sch else accent sch) (metrics ! i)" if "i < n" for i
  proof -
    have "cs ! i = (\<lambda>(i, ax, m). Card ([primary sch, accent sch] ! (i mod 2)) m)
                     (enumerate 0 (zip (take n [0..<r * c]) metrics) ! i)"
      using that len1 by (simp add: cs_def nth_append)
    also have "enumerate 0 (zip (take n [0..<r * c]) metrics) ! i = (i, (take n [0..<r * c]) ! i, metrics ! i)"
      using that fit by (simp add: nth_enumerate_eq n_def)
    finally show ?thesis by (simp add: fill_cycle)
  qed
  have hid: "cs ! i = Hidden" if "n \<le> i" "i < r * c" for i
    using that len1 by (simp add: cs_def nth_append)
  have rows_eq: "r = (if n \<le> 2 then 1 else if n \<le> 4 then 2 else nat \<lceil>real n / 3\<rceil>)"
    using gs ceil_third [of n] by (auto simp: grid_shape_def split: if_splits)
  have cols_eq: "c = (if n \<le> 2 then n else if n \<le> 4 then 2 else 3)"
    using gs by (auto simp: grid_shape_def split: if_splits)
  show "\<exists>lay. generate_big_number_cards metrics sch = Inr lay
        \<and> rows lay = (if length metrics \<le> 2 then 1 else if length metrics \<le> 4 then 2
                       else nat \<lceil>real (length metrics) / 3\<rceil>)
        \<and> cols lay = (if length metrics \<le> 2 then length metrics else if length metrics \<le> 4 then 2
                       else 3)
        \<and> length (cells lay) = rows lay * cols lay
        \<and> length metrics \<le> rows lay * cols lay
        \<and> (\<forall>i<length metrics.
              cells lay ! i = Card (if even i then primary sch else accent sch) (metrics ! i))
        \<and> (\<forall>i. length metrics \<le> i \<and> i < rows lay * cols lay \<longrightarrow> cells lay ! i = Hidden)"
  proof (intro exI [of _ lay] conjI)
    show "generate_big_number_cards metrics sch = Inr lay" by (rule gen)
    show "rows lay = (if length metrics \<le> 2 then 1 else if length metrics \<le> 4 then 2
                       else nat \<lceil>real (length metrics) / 3\<rceil>)"
      using rows_eq by (simp add: lay_def n_def)
    show "cols lay = (if length metrics \<le> 2 then length metrics else if length metrics \<le> 4 then 2
                       else 3)"
      using cols_eq by (simp add: lay_def n_def)
    show "length (cells lay) = rows lay * cols lay" using len by (simp add: lay_def)
    show "length metrics \<le> rows lay * cols lay" using fit by (simp add: lay_def n_def)
    show "\<forall>i<length metrics.
              cells lay ! i = Card (if even i then primary sch else accent sch) (metrics ! i)"
      using card by (simp add: lay_def n_def)
    show "\<forall>i. length metrics \<le> i \<and> i < rows lay * cols lay \<longrightarrow> cells lay ! i = Hidden"
      using hid by (simp add: lay_def n_def)
  qed
qed

text \<open>Five metrics under the gold\_blue scheme: two rows of three, the sixth cell hidden.\<close>

lemma metrics5:
  "parse_metrics_data ''1:a:x,2:b:y,3:c:z,4:d:u,5:e:v'' =
     Inr [\<lparr>number = ''1'', title = ''a'', description = ''x''\<rparr>,
          \<lparr>number = ''2'', title = ''b'', description = ''y''\<rparr>,
          \<lparr>number = ''3'', title = ''c'', description = ''z''\<rparr>,
          \<lparr>number = ''4'', title = ''d'', description = ''u''\<rparr>,
          \<lparr>number = ''5'', title = ''e'', description = ''v''\<rparr>]"
  by (simp add: eval_parse)

theorem big_number_grid_witness:
  "\<not> isl (parse_metrics_data ''1:a:x,2:b:y,3:c:z,4:d:u,5:e:v'')
   \<and> projr (parse_metrics_data ''1:a:x,2:b:y,3:c:z,4:d:u,5:e:v'') \<noteq> []
   \<and> length (projr (parse_metrics_data ''1:a:x,2:b:y,3:c:z,4:d:u,5:e:v'')) = 5
   \<and> \<not> isl (scheme_of big_numbers_COLOR_SCHEMES ''gold_blue'')
   \<and> (\<exists>lay. generate_big_number_cards (projr (parse_metrics_data ''1:a:x,2:b:y,3:c:z,4:d:u,5:e:v''))
                (projr (scheme_of big_numbers_COLOR_SCHEMES ''gold_blue'')) = Inr lay
         \<and> rows lay = 2 \<and> cols lay = 3 \<and> length (cells lay) = 6
         \<and> cells lay ! 0 = Card ''#2C5282'' \<lparr>number = ''1'', title = ''a'', description = ''x''\<rparr>
         \<and> cells lay ! 1 = Card ''#D4AF37'' \<lparr>number = ''2'', title = ''b'', description = ''y''\<rparr>
         \<and> cells lay ! 4 = Card ''#2C5282'' \<lparr>number = ''5'', title = ''e'', description = ''v''\<rparr>
         \<and> cells lay ! 5 = Hidden)"
proof -
  let ?ms = "projr (parse_metrics_data ''1:a:x,2:b:y,3:c:z,4:d:u,5:e:v'')"
  let ?sch = "projr (scheme_of big_numbers_COLOR_SCHEMES ''gold_blue'')"
  have ms: "?ms = [\<lparr>number = ''1'', title = ''a'', description = ''x''\<rparr>,
          \<lparr>number = ''2'', title = ''b'', description = ''y''\<rparr>,
          \<lparr>number = ''3'', title = ''c'', description = ''z''\<rparr>,
          \<lparr>number = ''4'', title = ''d'', description = ''u''\<rparr>,
          \<lparr>number = ''5'', title = ''e'', description = ''v''\<rparr>]"
    by (simp add: metrics5)
  have sch: "primary ?sch = ''#2C5282''" "accent ?sch = ''#D4AF37''"
    by (simp_all add: scheme_of_def big_numbers_COLOR_SCHEMES_def)
  have ne: "?ms \<noteq> []" by (simp add: ms)
  have ceil: "nat \<lceil>real (5::nat) / 3\<rceil> = 2" by (simp add: ceil_third [symmetric])
  from big_number_grid [of ?ms ?sch] ne obtain lay where
    g: "generate_big_number_cards ?ms ?sch = Inr lay"
    and r: "rows lay = (if length ?ms \<le> 2 then 1 else if length ?ms \<le> 4 then 2
                       else nat \<lceil>real (length ?ms) / 3\<rceil>)"
    and c: "cols lay = (if length ?ms \<le> 2 then length ?ms else if length ?ms \<le> 4 then 2 else 3)"
    and l: "length (cells lay) = rows lay * cols lay"
    and cards: "\<forall>i<length ?ms. cells lay ! i = Card (if even i then primary ?sch else accent ?sch) (?ms ! i)"
    and hid: "\<forall>i. length ?ms \<le> i \<and> i < rows lay * cols lay \<longrightarrow> cells lay ! i = Hidden"
    by blast
  have n: "length ?ms = 5" by (simp add: ms)
  from r c n ceil have r2: "rows lay = 2" and c3: "cols lay = 3" by simp_all
  from l r2 c3 have l6: "length (cells lay) = 6" by simp
  from cards n have c0: "cells lay ! 0 = Card (primary ?sch) (?ms ! 0)"
    and c1: "cells lay ! 1 = Card (accent ?sch) (?ms ! 1)"
    and c4: "cells lay ! 4 = Card (primary ?sch) (?ms ! 4)" by simp_all
  from hid n r2 c3 have c5: "cells lay ! 5 = Hidden" by simp
  have "\<not> isl (parse_metrics_data ''1:a:x,2:b:y,3:c:z,4:d:u,5:e:v'')" by (simp add: metrics5)
  moreover have "\<not> isl (scheme_of big_numbers_COLOR_SCHEMES ''gold_blue'')"
    by (simp add: scheme_of_def big_numbers_COLOR_SCHEMES_def)
  moreover have "\<exists>lay. generate_big_number_cards ?ms ?sch = Inr lay
         \<and> rows lay = 2 \<and> cols lay = 3 \<and> length (cells lay) = 6
         \<and> cells lay ! 0 = Card ''#2C5282'' \<lparr>number = ''1'', title = ''a'', description = ''x''\<rparr>
         \<and> cells lay ! 1 = Card ''#D4AF37'' \<lparr>number = ''2'', title = ''b'', description = ''y''\<rparr>
         \<and> cells lay ! 4 = Card ''#2C5282'' \<lparr>number = ''5'', title = ''e'', description = ''v''\<rparr>
         \<and> cells lay ! 5 = Hidden"
    using g r2 c3 l6 c0 c1 c4 c5 sch by (intro exI [of _ lay]) (simp add: ms)
  ultimately show ?thesis using ne n by blast
qed

section \<open>Properties of the timeline layout (claim C3)\<close>

lemma linspace_closed_length: "length (linspace a b n True) = n"
  by (simp add: linspace_def Let_def)

lemma linspace_closed_nth:
  "i < n \<Longrightarrow> linspace a b n True ! i = (if n = 1 then a else a + real i * ((b - a) / real (n - 1)))"
  by (auto simp: linspace_def Let_def)

text \<open>
  What the generator does for any non-empty timeline: the \<open>n\<close> positions are interpolated evenly
  between 1.5 and 8.5 and the card width is \<open>(8.5 - 1.5) / n - 0.2\<close>, but nodes and cards are drawn
  only for the first \<open>min n (length colors)\<close> records, node \<open>i\<close> in colour \<open>colors ! i\<close>.
\<close>

lemma timeline_nodes_limited_by_palette:
  "timeline \<noteq> [] \<longrightarrow>
     (\<exists>lay. generate_horizontal_timeline timeline sch = Inr lay
        \<and> length (x_positions lay) = length timeline
        \<and> (\<forall>i<length timeline.
              x_positions lay ! i =
                (if length timeline = 1 then 1.5
                 else 1.5 + real i * ((8.5 - 1.5) / real (length timeline - 1))))
        \<and> length (nodes lay) = min (length timeline) (length (colors sch))
        \<and> length (cards lay) = min (length timeline) (length (colors sch))
        \<and> (\<forall>i<min (length timeline) (length (colors sch)).
              node_x (nodes lay ! i) = x_positions lay ! i
              \<and> node_color (nodes lay ! i) = colors sch ! i
              \<and> card_color (cards lay ! i) = colors sch ! i
              \<and> card_width (cards lay ! i) = (8.5 - 1.5) / real (length timeline) - 0.2
              \<and> card_left (cards lay ! i)
                  = x_positions lay ! i - ((8.5 - 1.5) / real (length timeline) - 0.2) / 2))"
proof (intro impI)
  assume ne: "timeline \<noteq> []"
  define n where "n = length timeline"
  define xs where "xs = linspace 1.5 8.5 n True"
  define cs where "cs = take n (colors sch)"
  define w :: real where "w = (8.5 - 1.5) / real n - 0.2"
  define zs where "zs = zip xs (zip timeline cs)"
  define lay where "lay = \<lparr>x_positions = xs,
      nodes = map (\<lambda>(x, item, color). \<lparr>node_x = x, node_color = color, node_time = time item,
                       node_title = stage_title item\<rparr>) zs,
      cards = map (\<lambda>(x, item, color). \<lparr>card_left = x - w / 2, card_width = w,
                              card_color = color, card_text = stage_description item\<rparr>) zs\<rparr>"
  from ne have pos: "n \<noteq> 0" by (simp add: n_def)
  have gen: "generate_horizontal_timeline timeline sch = Inr lay"
    using pos
    by (simp add: generate_horizontal_timeline_def Let_def lay_def zs_def xs_def cs_def w_def n_def)
  have xlen: "length xs = n" by (simp add: xs_def linspace_closed_length)
  have cslen: "length cs = min n (length (colors sch))" by (simp add: cs_def min.commute)
  have zlen: "length zs = min n (length (colors sch))"
    by (simp add: zs_def xlen cslen n_def [symmetric])
  have znth: "zs ! i = (xs ! i, timeline ! i, colors sch ! i)" if "i < min n (length (colors sch))" for i
    using that by (simp add: zs_def xlen cslen cs_def n_def [symmetric])
  have xnth: "\<forall>i<n. xs ! i = (if n = 1 then 1.5 else 1.5 + real i * ((8.5 - 1.5) / real (n - 1)))"
    by (simp add: xs_def linspace_closed_nth)
  have per: "\<forall>i<min n (length (colors sch)).
              node_x (nodes lay ! i) = x_positions lay ! i
              \<and> node_color (nodes lay ! i) = colors sch ! i
              \<and> card_color (cards lay ! i) = colors sch ! i
              \<and> card_width (cards lay ! i) = w
              \<and> card_left (cards lay ! i) = x_positions lay ! i - w / 2"
    using zlen znth by (simp add: lay_def)
  show "\<exists>lay. generate_horizontal_timeline timeline sch = Inr lay
        \<and> length (x_positions lay) = length timeline
        \<and> (\<forall>i<length timeline.
              x_positions lay ! i =
                (if length timeline = 1 then 1.5
                 else 1.5 + real i * ((8.5 - 1.5) / real (length timeline - 1))))
        \<and> length (nodes lay) = min (length timeline) (length (colors sch))
        \<and> length (cards lay) = min (length timeline) (length (colors sch))
        \<and> (\<forall>i<min (length timeline) (length (colors sch)).
              node_x (nodes lay ! i) = x_positions lay ! i
              \<and> node_color (nodes lay ! i) = colors sch ! i
              \<and> card_color (cards lay ! i) = colors sch ! i
              \<and> card_width (cards lay ! i) = (8.5 - 1.5) / real (length timeline) - 0.2
              \<and> card_left (cards lay ! i)
                  = x_positions lay ! i - ((8.5 - 1.5) / real (length timeline) - 0.2) / 2)"
    unfolding n_def [symmetric] w_def [symmetric]
  proof (intro exI [of _ lay] conjI)
    show "generate_horizontal_timeline timeline sch = Inr lay" by (rule gen)
    show "length (x_positions lay) = n" by (simp add: lay_def xlen)
    show "\<forall>i<n. x_positions lay ! i = (if n = 1 then 1.5 else 1.5 + real i * ((8.5 - 1.5) / real (n - 1)))"
      using xnth by (simp add: lay_def)
    show "length (nodes lay) = min n (length (colors sch))" by (simp add: lay_def zlen)
    show "length (cards lay) = min n (length (colors sch))" by (simp add: lay_def zlen)
    show "\<forall>i<min n (length (colors sch)).
              node_x (nodes lay ! i) = x_positions lay ! i
              \<and> node_color (nodes lay ! i) = colors sch ! i
              \<and> card_color (cards lay ! i) = colors sch ! i
              \<and> card_width (cards lay ! i) = w
              \<and> card_left (cards lay ! i) = x_positions lay ! i - w / 2" by (rule per)
  qed
qed

lemma timeline5:
  "parse_timeline_data ''Q1:a:x,Q2:b:y,Q3:c:z,Q4:d:u,Q5:e:v'' =
     Inr [\<lparr>time = ''Q1'', stage_title = ''a'', stage_description = ''x''\<rparr>,
          \<lparr>time = ''Q2'', stage_title = ''b'', stage_description = ''y''\<rparr>,
          \<lparr>time = ''Q3'', stage_title = ''c'', stage_description = ''z''\<rparr>,
          \<lparr>time = ''Q4'', stage_title = ''d'', stage_description = ''u''\<rparr>,
          \<lparr>time = ''Q5'', stage_title = ''e'', stage_description = ''v''\<rparr>]"
  by (simp add: parse_timeline_data_def strip_def py_isspace_def is_space2_def is_space3_def py_nth_def)

text \<open>
  Claim C3 says that all \<open>n\<close> nodes of a timeline are placed and that node \<open>i\<close> takes the colour
  \<open>i mod\<close> the palette length, so that every node has a colour when \<open>n\<close> exceeds the palette.
  The code does so up to the palette length only. For five records Q1 to Q5 under the
  gold\_blue scheme (a palette of four colours) the five positions are computed and the card
  width is that of five cards, 1.2, yet only four nodes and four cards are drawn: the record
  Q5 gets no node, no colour and no card.
\<close>

theorem timeline_fifth_node_dropped:
  "\<not> isl (parse_timeline_data ''Q1:a:x,Q2:b:y,Q3:c:z,Q4:d:u,Q5:e:v'')
   \<and> length (projr (parse_timeline_data ''Q1:a:x,Q2:b:y,Q3:c:z,Q4:d:u,Q5:e:v'')) = 5
   \<and> \<not> isl (scheme_of timeline_COLOR_SCHEMES ''gold_blue'')
   \<and> colors (projr (scheme_of timeline_COLOR_SCHEMES ''gold_blue''))
       = [''#2C5282'', ''#D4AF37'', ''#3A6FA5'', ''#8B4513'']
   \<and> (\<exists>lay. generate_horizontal_timeline
                (projr (parse_timeline_data ''Q1:a:x,Q2:b:y,Q3:c:z,Q4:d:u,Q5:e:v''))
                (projr (scheme_of timeline_COLOR_SCHEMES ''gold_blue'')) = Inr lay
         \<and> x_positions lay = [1.5, 3.25, 5, 6.75, 8.5]
         \<and> length (nodes lay) = 4
         \<and> length (cards lay) = 4
         \<and> map node_time (nodes lay) = [''Q1'', ''Q2'', ''Q3'', ''Q4'']
         \<and> map node_color (nodes lay) = [''#2C5282'', ''#D4AF37'', ''#3A6FA5'', ''#8B4513'']
         \<and> map card_width (cards lay) = [1.2, 1.2, 1.2, 1.2])"
proof -
  let ?tl = "projr (parse_timeline_data ''Q1:a:x,Q2:b:y,Q3:c:z,Q4:d:u,Q5:e:v'')"
  let ?sch = "projr (scheme_of timeline_COLOR_SCHEMES ''gold_blue'')"
  have tl: "?tl = [\<lparr>time = ''Q1'', stage_title = ''a'', stage_description = ''x''\<rparr>,
          \<lparr>time = ''Q2'', stage_title = ''b'', stage_description = ''y''\<rparr>,
          \<lparr>time = ''Q3'', stage_title = ''c'', stage_description = ''z''\<rparr>,
          \<lparr>time = ''Q4'', stage_title = ''d'', stage_description = ''u''\<rparr>,
          \<lparr>time = ''Q5'', stage_title = ''e'', stage_description = ''v''\<rparr>]"
    by (simp add: timeline5)
  have sch: "?sch = \<lparr>tl_name = name_gold_blue, colors = [''#2C5282'', ''#D4AF37'', ''#3A6FA5'', ''#8B4513''],
       tl_text_color = ''#2D3436'', tl_text_light = ''#636E72''\<rparr>"
    by (simp add: scheme_of_def timeline_COLOR_SCHEMES_def)
  have xs: "linspace (3 / 2) (17 / 2) (Suc (Suc (Suc (Suc (Suc 0))))) True
              = [3 / 2, 13 / 4, 5, 27 / 4, 17 / 2]"
    by (simp add: linspace_def Let_def)
  have "\<exists>lay. generate_horizontal_timeline ?tl ?sch = Inr lay
         \<and> x_positions lay = [1.5, 3.25, 5, 6.75, 8.5]
         \<and> length (nodes lay) = 4
         \<and> length (cards lay) = 4
         \<and> map node_time (nodes lay) = [''Q1'', ''Q2'', ''Q3'', ''Q4'']
         \<and> map node_color (nodes lay) = [''#2C5282'', ''#D4AF37'', ''#3A6FA5'', ''#8B4513'']
         \<and> map card_width (cards lay) = [1.2, 1.2, 1.2, 1.2]"
    unfolding tl sch by (simp add: generate_horizontal_timeline_def Let_def xs)
  moreover have "\<not> isl (parse_timeline_data ''Q1:a:x,Q2:b:y,Q3:c:z,Q4:d:u,Q5:e:v'')"
    by (simp add: timeline5)
  moreover have "\<not> isl (scheme_of timeline_COLOR_SCHEMES ''gold_blue'')"
    by (simp add: scheme_of_def timeline_COLOR_SCHEMES_def)
  moreover have "length ?tl = 5" by (simp add: tl)
  moreover have "colors ?sch = [''#2C5282'', ''#D4AF37'', ''#3A6FA5'', ''#8B4513'']"
    by (simp add: sch)
  ultimately show ?thesis by blast
qed

section \<open>Properties of the colour registries (claim C5)\<close>

lemmas eval_schemes = scheme_of_def chart_COLOR_SCHEMES_def big_numbers_COLOR_SCHEMES_def
  timeline_COLOR_SCHEMES_def

text \<open>
  Claim C5, as the code has it. Each of the three registries has exactly the five keys blue,
  orange, green, gold\_blue, multilayer. Under every key the registries agree on the hex strings
  of the fields they share: name, primary, accent, text, text\_light and background between the
  chart and the big-number tool, name, text and text\_light also with the timeline tool. The
  colour sequence (gradient, called colors in the timeline tool) is the same in all three for
  blue, orange and green; for gold\_blue and multilayer the three tools carry three different
  sequences.
\<close>

theorem registries_shared_fields:
  "map fst chart_COLOR_SCHEMES = [''blue'', ''orange'', ''green'', ''gold_blue'', ''multilayer'']
   \<and> map fst big_numbers_COLOR_SCHEMES = [''blue'', ''gold_blue'', ''multilayer'', ''orange'', ''green'']
   \<and> map fst timeline_COLOR_SCHEMES = [''blue'', ''gold_blue'', ''multilayer'', ''orange'', ''green'']
   \<and> list_all
        (\<lambda>key. case (scheme_of chart_COLOR_SCHEMES key, scheme_of big_numbers_COLOR_SCHEMES key,
                       scheme_of timeline_COLOR_SCHEMES key) of
                  (Inr c, Inr b, Inr t) \<Rightarrow>
                     name c = name b \<and> name b = tl_name t
                     \<and> primary c = primary b \<and> accent c = accent b
                     \<and> text_color c = text_color b \<and> text_color b = tl_text_color t
                     \<and> text_light c = text_light b \<and> text_light b = tl_text_light t
                     \<and> background c = background b
                | _ \<Rightarrow> False)
        [''blue'', ''orange'', ''green'', ''gold_blue'', ''multilayer'']
   \<and> list_all
        (\<lambda>key. case (scheme_of chart_COLOR_SCHEMES key, scheme_of big_numbers_COLOR_SCHEMES key,
                       scheme_of timeline_COLOR_SCHEMES key) of
                  (Inr c, Inr b, Inr t) \<Rightarrow> gradient c = gradient b \<and> gradient b = colors t
                | _ \<Rightarrow> False)
        [''blue'', ''orange'', ''green'']
   \<and> list_all
        (\<lambda>key. case (scheme_of chart_COLOR_SCHEMES key, scheme_of big_numbers_COLOR_SCHEMES key,
                       scheme_of timeline_COLOR_SCHEMES key) of
                  (Inr c, Inr b, Inr t) \<Rightarrow>
                     gradient c \<noteq> gradient b \<and> gradient b \<noteq> colors t \<and> gradient c \<noteq> colors t
                | _ \<Rightarrow> False)
        [''gold_blue'', ''multilayer'']"
  by (simp add: eval_schemes)

text \<open>
  Counterexample to the claim as the specification words it: the same key and field, gradient of gold\_blue and of
  multilayer, holds different hex strings in generate\_chart.py and generate\_big\_numbers.py.
\<close>

theorem registries_identical_counterexample:
  "\<not> isl (scheme_of chart_COLOR_SCHEMES ''gold_blue'')
   \<and> \<not> isl (scheme_of big_numbers_COLOR_SCHEMES ''gold_blue'')
   \<and> gradient (projr (scheme_of chart_COLOR_SCHEMES ''gold_blue''))
        = [''#1E3A5F'', ''#2C5282'', ''#3A6FA5'']
   \<and> gradient (projr (scheme_of big_numbers_COLOR_SCHEMES ''gold_blue''))
        = [''#2C5282'', ''#D4AF37'', ''#3A6FA5'', ''#F4E4C1'']
   \<and> gradient (projr (scheme_of chart_COLOR_SCHEMES ''gold_blue''))
        \<noteq> gradient (projr (scheme_of big_numbers_COLOR_SCHEMES ''gold_blue''))
   \<and> gradient (projr (scheme_of chart_COLOR_SCHEMES ''multilayer''))
        = [''#2C5282'', ''#3A6FA5'', ''#5A8FC4'']
   \<and> gradient (projr (scheme_of big_numbers_COLOR_SCHEMES ''multilayer''))
        = [''#2C5282'', ''#FF9500'', ''#D4AF37'', ''#8B4513'']
   \<and> gradient (projr (scheme_of chart_COLOR_SCHEMES ''multilayer''))
        \<noteq> gradient (projr (scheme_of big_numbers_COLOR_SCHEMES ''multilayer''))"
  by (simp add: eval_schemes)

end
